theory Spec2Isabelle
  imports Main "HOL-Library.AList" "HOL-Library.Multiset"
begin

section \<open>Objects, values and exceptions\<close>

text \<open>
  The mapping engine of \<^verbatim>\<open>lib/sqlalchemy/orm/mapper.py\<close> works on Python objects that
  are compared by identity (\<^verbatim>\<open>is\<close>) and mutated in place, several of them shared between
  mappers (the polymorphic map of an inheritance chain, the list of inheriting mappers).
  Every object is therefore a reference into a store: a mapper is an index into the list of
  mapper records, a selectable an index into the list of selectables, and so on. Allocation
  appends to the list, so a new object is never identical to an older one.
\<close>

type_synonym mid = nat
type_synonym cls = nat
type_synonym sel = nat
type_synonym col = nat
type_synonym pid = nat
type_synonym rid = nat
type_synonym dictid = nat
type_synonym setid = nat

datatype pyval = IntV int | StrV string

datatype clause = Clause nat

datatype exc_class =
    ArgumentError
  | InvalidRequestError
  | NoForeignKeysError
  | AmbiguousForeignKeysError
  | UnmappedColumnError
  | UnmappedClassError
  | NoSuchColumnError
  | AttributeError
  | TypeError
  | OtherError string

text \<open>
  An exception is its class, the format string of its message with the arguments of
  \<^verbatim>\<open>%\<close> left unrendered, its \<^verbatim>\<open>__cause__\<close> (\<^verbatim>\<open>raise ... from e\<close>) and its
  \<^verbatim>\<open>_configure_failed\<close> attribute, when it has one.
\<close>

datatype fmtarg =
    FStr string
  | FMapper mid
  | FSel sel
  | FCls cls
  | FCol col
  | FVal "pyval option"
  | FExn exn
and exn = Exn exc_class string "fmtarg list" "exn option" "exn option"

fun exc_class_of :: "exn \<Rightarrow> exc_class" where
  "exc_class_of (Exn k msg args cause cf) = k"

fun exc_message :: "exn \<Rightarrow> string" where
  "exc_message (Exn k msg args cause cf) = msg"

fun exc_cause :: "exn \<Rightarrow> exn option" where
  "exc_cause (Exn k msg args cause cf) = cause"

fun exc_configure_failed :: "exn \<Rightarrow> exn option" where
  "exc_configure_failed (Exn k msg args cause cf) = cf"

datatype warning = Warning string "fmtarg list"

datatype event =
    EvBeforeConfigured
  | EvAfterConfigured
  | EvPropInit pid
  | EvPostInstrumentClass pid mid
  | EvMapperConfigured mid

datatype selobj =
    Table string
  | Join sel sel "clause option"
  | OtherSelectable string

section \<open>The store\<close>

record mapper =
  mapper_class :: cls
  non_primary :: bool
  concrete :: bool
  single :: bool
  inherits :: "mid option"
  inherits_class :: "cls option"
  local_table :: "sel option"
  persist_selectable :: "sel option"
  inherit_condition :: "clause option"
  inherit_foreign_keys :: "col list"
  inherits_equated_pairs :: "(col \<times> col) list option"
  primary_key_argument :: "col list option"
  primary_key :: "col list option"
  polymorphic_on :: "col option"
  polymorphic_identity :: "pyval option"
  polymorphic_load :: "string option"
  polymorphic_map :: dictid
  identity_class :: "cls option"
  version_id_col :: "col option"
  version_id_generator :: "nat option"
  batch :: bool
  passive_updates :: bool
  passive_deletes :: bool
  requires_row_aliasing :: bool
  inheriting_mappers :: "mid list"
  base_mapper :: "mid option"
  all_tables :: "setid option"
  registry :: "rid option"
  props :: "(string \<times> pid) list"
  columntoproperty :: "(col \<times> pid) list"
  tables :: "sel list"
  pks_by_table :: "(sel \<times> col list) list"
  cols_by_table :: "(sel \<times> col list) list"
  readonly_props :: "pid list"
  configured :: bool
  configure_failed :: "exn option"
  ready_for_configure :: bool

record manager =
  mgr_mapper :: "mid option"
  mgr_registry :: "rid option"

record property =
  parent :: "mid option"
  configure_started :: bool
  configure_finished :: bool

record registry_obj =
  new_mappers :: bool
  managers :: "cls list"
  non_primary_mappers :: "mid list"
  dependencies :: "rid list"

record world =
  mappers :: "mapper list"
  polymorphic_maps :: "(pyval \<times> mid) list list"
  table_sets :: "sel list list"
  selectables :: "selobj list"
  properties :: "property list"
  class_managers :: "(cls \<times> manager) list"
  registries :: "registry_obj list"
  already_compiling :: bool
  warnings :: "warning list"
  events :: "event list"

definition the_mapper :: "world \<Rightarrow> mid \<Rightarrow> mapper" where
  "the_mapper w m = mappers w ! m"

definition upd_mapper :: "mid \<Rightarrow> (mapper \<Rightarrow> mapper) \<Rightarrow> world \<Rightarrow> world" where
  "upd_mapper m f w = w\<lparr>mappers := (mappers w)[m := f (mappers w ! m)]\<rparr>"

definition warn :: "string \<Rightarrow> fmtarg list \<Rightarrow> world \<Rightarrow> world" where
  "warn msg args w = w\<lparr>warnings := warnings w @ [Warning msg args]\<rparr>"

definition emit :: "event \<Rightarrow> world \<Rightarrow> world" where
  "emit ev w = w\<lparr>events := events w @ [ev]\<rparr>"

section \<open>Identity keys\<close>

text \<open>
  An identity key is the triple of the identity class, the tuple of primary-key values and
  the identity token. A row maps columns to values (a value may be SQL NULL, Python
  \<^verbatim>\<open>None\<close>); looking up a column the row does not have raises. An adapter, when given,
  translates each primary-key column through \<^verbatim>\<open>adapter.columns\<close>.
\<close>

type_synonym identity_key = "cls \<times> pyval option list \<times> pyval option"
type_synonym row = "col \<Rightarrow> pyval option option"

fun row_values :: "row \<Rightarrow> col list \<Rightarrow> exn + pyval option list" where
  "row_values r [] = Inr []"
| "row_values r (c # cs) =
     (case r c of
        None \<Rightarrow> Inl (Exn NoSuchColumnError ''Could not locate column in row for column %s'' [FCol c] None None)
      | Some v \<Rightarrow>
          (case row_values r cs of Inl e \<Rightarrow> Inl e | Inr vs \<Rightarrow> Inr (v # vs)))"

definition adapt_pk_cols :: "(col \<Rightarrow> col) option \<Rightarrow> col list \<Rightarrow> col list" where
  "adapt_pk_cols adapter pk_cols =
     (case adapter of None \<Rightarrow> pk_cols | Some columns \<Rightarrow> map columns pk_cols)"

definition no_attribute :: "string \<Rightarrow> exn" where
  "no_attribute name = Exn AttributeError ''object has no attribute %s'' [FStr name] None None"

definition not_iterable :: exn where
  "not_iterable = Exn TypeError ''object is not iterable'' [] None None"

definition identity_key_from_row ::
  "world \<Rightarrow> mid \<Rightarrow> row \<Rightarrow> pyval option \<Rightarrow> (col \<Rightarrow> col) option \<Rightarrow> exn + identity_key" where
  "identity_key_from_row w self r identity_token adapter =
     (case primary_key (the_mapper w self) of
        None \<Rightarrow>
          (case adapter of
             Some columns \<Rightarrow> Inl not_iterable
           | None \<Rightarrow>
               (case identity_class (the_mapper w self) of
                  None \<Rightarrow> Inl (no_attribute ''_identity_class'')
                | Some c \<Rightarrow> Inl not_iterable))
      | Some pk \<Rightarrow>
          (let pk_cols = adapt_pk_cols adapter pk in
           case identity_class (the_mapper w self) of
             None \<Rightarrow> Inl (no_attribute ''_identity_class'')
           | Some c \<Rightarrow>
               (case row_values r pk_cols of
                  Inl e \<Rightarrow> Inl e
                | Inr vs \<Rightarrow> Inr (c, vs, identity_token))))"

definition identity_key_from_primary_key ::
  "world \<Rightarrow> mid \<Rightarrow> pyval option list \<Rightarrow> pyval option \<Rightarrow> exn + identity_key" where
  "identity_key_from_primary_key w self pk_values identity_token =
     (case identity_class (the_mapper w self) of
        None \<Rightarrow> Inl (no_attribute ''_identity_class'')
      | Some c \<Rightarrow> Inr (c, pk_values, identity_token))"


section \<open>Collaborators\<close>

text \<open>
  What the mapper consumes from the column and selectable layer, from the class
  instrumentation and from the event system is code outside \<^verbatim>\<open>mapper.py\<close>. It enters the
  model as the fields of an environment, one function for each collaborator call:
  \<^item> \<open>issubclass\<close>, the subclass test of the host language;
  \<^item> \<open>class_mapper\<close>, the lookup of the primary mapper of a class;
  \<^item> \<open>fk_conditions\<close>, the join conditions that the foreign keys between two selectables
    give (none, one or several candidates);
  \<^item> \<open>criterion_as_pairs\<close>, \<open>find_tables\<close>, \<open>proxy_set\<close>, \<open>col_primary_key\<close>,
    \<open>col_table\<close>, \<open>sel_primary_key\<close>, \<open>sel_columns\<close>, \<open>corresponding_column\<close> and
    \<open>reduce_columns\<close>, the schema queries of the same names;
  \<^item> \<open>legacy_registry\<close>, the registry that takes a class mapped outside any registry;
  \<^item> \<open>validator_names\<close>, the attribute names that the \<^verbatim>\<open>@validates\<close> methods of a class
    name, in the order in which the class is scanned;
  \<^item> \<open>add_with_polymorphic_subclass\<close>, the effect of the method of that name, of which
    only a possible exception is kept (the \<^verbatim>\<open>with_polymorphic\<close> setting is not part of
    the store);
  \<^item> \<open>property_configuration\<close> and \<open>polymorphic_setter\<close>, the outcome of property
    configuration and of the configuration of the polymorphic setter for a mapper under
    construction (see below);
  \<^item> \<open>before_mapper_configured\<close>, the listeners of that event for a mapper, each reading
    the store and answering whether it signals \<^verbatim>\<open>EXT_SKIP\<close>;
  \<^item> \<open>do_init\<close>, \<open>post_instrument_class\<close> and \<open>mapper_configured\<close>, the exception, if
    any, that a property's initialisation, its instrumentation hook and the listeners of the
    \<^verbatim>\<open>mapper_configured\<close> event raise;
  \<^item> \<open>recurse_with_dependencies\<close>, the order in which a configuration pass visits the
    registries.
\<close>

record props_result =
  res_props :: "(string \<times> pid) list"
  res_columntoproperty :: "(col \<times> pid) list"
  res_created :: "property list"

record setter_result =
  set_polymorphic_on :: "col option"
  set_props :: "(string \<times> pid) list"
  set_columntoproperty :: "(col \<times> pid) list"
  set_created :: "property list"

record env =
  issubclass :: "cls \<Rightarrow> cls \<Rightarrow> bool"
  class_mapper :: "world \<Rightarrow> cls \<Rightarrow> exn + mid"
  fk_conditions :: "sel \<Rightarrow> sel \<Rightarrow> clause list"
  criterion_as_pairs :: "clause option \<Rightarrow> col list \<Rightarrow> (col \<times> col) list"
  find_tables :: "world \<Rightarrow> sel \<Rightarrow> sel list"
  proxy_set :: "col \<Rightarrow> col list"
  col_primary_key :: "col \<Rightarrow> bool"
  col_table :: "col \<Rightarrow> sel option"
  sel_primary_key :: "world \<Rightarrow> sel \<Rightarrow> col list"
  sel_columns :: "world \<Rightarrow> sel \<Rightarrow> col list"
  corresponding_column :: "world \<Rightarrow> sel \<Rightarrow> col \<Rightarrow> col option"
  reduce_columns :: "col option list \<Rightarrow> col list"
  legacy_registry :: rid
  validator_names :: "cls \<Rightarrow> string list"
  add_with_polymorphic_subclass :: "world \<Rightarrow> mid \<Rightarrow> mid \<Rightarrow> exn option"
  property_configuration :: "world \<Rightarrow> mid \<Rightarrow> exn + props_result"
  polymorphic_setter :: "world \<Rightarrow> mid \<Rightarrow> exn + setter_result"
  before_mapper_configured :: "mid \<Rightarrow> (world \<Rightarrow> bool) list"
  do_init :: "world \<Rightarrow> pid \<Rightarrow> exn option"
  post_instrument_class :: "world \<Rightarrow> pid \<Rightarrow> mid \<Rightarrow> exn option"
  mapper_configured :: "world \<Rightarrow> mid \<Rightarrow> exn option"
  recurse_with_dependencies :: "world \<Rightarrow> rid list \<Rightarrow> rid list"

section \<open>Outcomes\<close>

text \<open>
  A method that mutates the store either returns, or raises with the store as it was left
  at the \<^verbatim>\<open>raise\<close> (Python rolls nothing back), or does not return at all.
\<close>

datatype outcome = Returns world | Raises exn world | Diverges

fun and_then :: "outcome \<Rightarrow> (world \<Rightarrow> outcome) \<Rightarrow> outcome" where
  "and_then (Returns w) f = f w"
| "and_then (Raises e w) f = Raises e w"
| "and_then Diverges f = Diverges"

fun run_steps :: "(world \<Rightarrow> outcome) list \<Rightarrow> world \<Rightarrow> outcome" where
  "run_steps [] w = Returns w"
| "run_steps (f # fs) w = and_then (f w) (run_steps fs)"

fun final_store :: "outcome \<Rightarrow> world option" where
  "final_store (Returns w) = Some w"
| "final_store (Raises e w) = Some w"
| "final_store Diverges = None"

fun raised :: "outcome \<Rightarrow> exn option" where
  "raised (Returns w) = None"
| "raised (Raises e w) = Some e"
| "raised Diverges = None"

section \<open>Walking the inheritance chain\<close>

text \<open>
  \<^verbatim>\<open>iterate_to_root\<close> follows \<^verbatim>\<open>inherits\<close> until it is \<^verbatim>\<open>None\<close>:
  \<^verbatim>\<open>m = self; while m: yield m; m = m.inherits\<close>. On a store whose \<^verbatim>\<open>inherits\<close>
  references form a cycle the loop does not end, which is the value \<open>None\<close> here.
\<close>

partial_function (option) iterate_to_root :: "world \<Rightarrow> mid option \<Rightarrow> mid list option" where
  "iterate_to_root w m =
     (case m of
        None \<Rightarrow> Some []
      | Some i \<Rightarrow>
          Option.bind (iterate_to_root w (inherits (the_mapper w i))) (\<lambda>rest. Some (i # rest)))"

declare iterate_to_root.simps [code]


section \<open>Inheritance resolution\<close>

definition apostrophe :: string where
  "apostrophe = [CHR 0x27]"

definition set_item :: "dictid \<Rightarrow> pyval \<Rightarrow> mid \<Rightarrow> world \<Rightarrow> world" where
  "set_item d k v w =
     w\<lparr>polymorphic_maps := (polymorphic_maps w)[d := AList.update k v (polymorphic_maps w ! d)]\<rparr>"

definition get_item :: "world \<Rightarrow> dictid \<Rightarrow> pyval \<Rightarrow> mid option" where
  "get_item w d k = map_of (polymorphic_maps w ! d) k"

text \<open>
  Modelled from the spec: \<^verbatim>\<open>sql_util.join_condition\<close>, which is not part of
  \<^verbatim>\<open>mapper.py\<close>. The selectable layer infers a join condition from the foreign keys between
  two selectables, "producing exactly zero/one/many candidate conditions, distinguishing
  none from ambiguous": no candidate is \<^verbatim>\<open>NoForeignKeysError\<close>, several are
  \<^verbatim>\<open>AmbiguousForeignKeysError\<close>, one is the condition. A left side that is \<^verbatim>\<open>None\<close> is
  not a selectable and is refused with \<^verbatim>\<open>ArgumentError\<close>.
\<close>

definition join_condition :: "env \<Rightarrow> sel option \<Rightarrow> sel \<Rightarrow> exn + clause" where
  "join_condition E a b =
     (case a of
        None \<Rightarrow> Inl (Exn ArgumentError ''FROM expression expected, got None'' [] None None)
      | Some a' \<Rightarrow>
          (case fk_conditions E a' b of
             [] \<Rightarrow> Inl (Exn NoForeignKeysError
                        ''Can't find any foreign key relationships between %s and %s''
                        [FSel a', FSel b] None None)
           | [c] \<Rightarrow> Inr c
           | c # c' # cs \<Rightarrow> Inl (Exn AmbiguousForeignKeysError
                        ''Can't determine join between %s and %s; tables have more than one foreign key constraint relationship between them''
                        [FSel a', FSel b] None None)))"

text \<open>\<^verbatim>\<open>sql.join(left, right, onclause)\<close> makes a new join object.\<close>

definition sql_join :: "sel option \<Rightarrow> sel \<Rightarrow> clause option \<Rightarrow> world \<Rightarrow> exn + (sel \<times> world)" where
  "sql_join left right onclause w =
     (case left of
        None \<Rightarrow> Inl (Exn ArgumentError ''FROM expression expected, got None'' [] None None)
      | Some l \<Rightarrow>
          Inr (length (selectables w),
               w\<lparr>selectables := selectables w @ [Join l right onclause]\<rparr>))"

fun mark_row_aliasing :: "mid list \<Rightarrow> world \<Rightarrow> world" where
  "mark_row_aliasing [] w = w"
| "mark_row_aliasing (m # ms) w =
     mark_row_aliasing ms
       (if polymorphic_on (the_mapper w m) \<noteq> None
        then upd_mapper m (\<lambda>x. x\<lparr>requires_row_aliasing := True\<rparr>) w
        else w)"

text \<open>Lines 960 to 974: the class and the primary or non-primary kind must fit the parent.\<close>

definition check_inheritance :: "env \<Rightarrow> mid \<Rightarrow> mid \<Rightarrow> world \<Rightarrow> outcome" where
  "check_inheritance E self p w =
     (let s = the_mapper w self; par = the_mapper w p in
      if \<not> issubclass E (mapper_class s) (mapper_class par) then
        Raises (Exn ArgumentError (''Class '%s' does not inherit from '%s'' @ apostrophe)
                  [FCls (mapper_class s), FCls (mapper_class par)] None None) w
      else if non_primary s \<noteq> non_primary par then
        (let np = (if \<not> non_primary s then ''primary'' else ''non-primary'') in
         Raises (Exn ArgumentError
                  ''Inheritance of %s mapper for class '%s' is only allowed from a %s mapper''
                  [FStr np, FCls (mapper_class s), FStr np] None None) w)
      else Returns w)"

text \<open>Lines 987 to 1031: the inherit condition, inferred when none was given.\<close>

definition infer_inherit_condition :: "env \<Rightarrow> mid \<Rightarrow> mid \<Rightarrow> sel \<Rightarrow> world \<Rightarrow> outcome" where
  "infer_inherit_condition E self p lt w =
     (let s = the_mapper w self; par = the_mapper w p in
      case inherit_condition s of
        Some c \<Rightarrow> Returns w
      | None \<Rightarrow>
          (case join_condition E (local_table par) lt of
             Inr c \<Rightarrow> Returns (upd_mapper self (\<lambda>x. x\<lparr>inherit_condition := Some c\<rparr>) w)
           | Inl nfe \<Rightarrow>
               if exc_class_of nfe = NoForeignKeysError then
                 Raises (Exn NoForeignKeysError
                   ''Can't determine the inherit condition between inherited table '%s' and inheriting table '%s'; tables have no foreign key relationships established.  Please ensure the inheriting table has a foreign key relationship to the inherited table, or provide an 'on clause' using the 'inherit_condition' mapper argument.''
                   [FSel (the (local_table par)), FSel lt] (Some nfe) None) w
               else if exc_class_of nfe = AmbiguousForeignKeysError then
                 Raises (Exn AmbiguousForeignKeysError
                   ''Can't determine the inherit condition between inherited table '%s' and inheriting table '%s'; tables have more than one foreign key relationship established.  Please specify the 'on clause' using the 'inherit_condition' mapper argument.''
                   [FSel (the (local_table par)), FSel lt] (Some nfe) None) w
               else Raises nfe w))"

text \<open>Lines 1032 to 1042: the join of the parent's persist selectable to the local table.\<close>

definition join_to_parent :: "env \<Rightarrow> mid \<Rightarrow> mid \<Rightarrow> sel \<Rightarrow> world \<Rightarrow> outcome" where
  "join_to_parent E self p lt w =
     (let s = the_mapper w self; par = the_mapper w p in
      case sql_join (persist_selectable par) lt (inherit_condition s) w of
        Inl e \<Rightarrow> Raises e w
      | Inr (j, w') \<Rightarrow>
          Returns (upd_mapper self (\<lambda>x. x\<lparr>
            persist_selectable := Some j,
            inherits_equated_pairs :=
              Some (criterion_as_pairs E (inherit_condition s) (remdups (inherit_foreign_keys s)))\<rparr>) w'))"

text \<open>Lines 976 to 1044: single, concrete or joined inheritance, or the parent's own table.\<close>

definition configure_selectable :: "env \<Rightarrow> mid \<Rightarrow> mid \<Rightarrow> world \<Rightarrow> outcome" where
  "configure_selectable E self p w =
     (let s = the_mapper w self; par = the_mapper w p in
      case local_table s of
        None \<Rightarrow>
          Returns (upd_mapper self (\<lambda>x. x\<lparr>
            local_table := local_table par,
            persist_selectable := persist_selectable par,
            single := True\<rparr>) w)
      | Some lt \<Rightarrow>
          if Some lt \<noteq> local_table par then
            if concrete s then
              (let w' = upd_mapper self (\<lambda>x. x\<lparr>persist_selectable := Some lt\<rparr>) w in
               case iterate_to_root w' (Some self) of
                 None \<Rightarrow> Diverges
               | Some ms \<Rightarrow> Returns (mark_row_aliasing ms w'))
            else
              run_steps [infer_inherit_condition E self p lt, join_to_parent E self p lt] w
          else
            Returns (upd_mapper self (\<lambda>x. x\<lparr>persist_selectable := Some lt\<rparr>) w))"

text \<open>
  Lines 1046 to 1078: the identity class, the version column and what is propagated from
  the parent. Reading \<^verbatim>\<open>_identity_class\<close> or \<^verbatim>\<open>_all_tables\<close> of a parent that never
  set them is an \<^verbatim>\<open>AttributeError\<close>.
\<close>

definition set_identity_class :: "mid \<Rightarrow> mid \<Rightarrow> world \<Rightarrow> outcome" where
  "set_identity_class self p w =
     (let s = the_mapper w self; par = the_mapper w p in
      if polymorphic_identity s \<noteq> None \<and> \<not> concrete s then
        (case identity_class par of
           None \<Rightarrow> Raises (no_attribute ''_identity_class'') w
         | Some c \<Rightarrow> Returns (upd_mapper self (\<lambda>x. x\<lparr>identity_class := Some c\<rparr>) w))
      else Returns (upd_mapper self (\<lambda>x. x\<lparr>identity_class := Some (mapper_class s)\<rparr>) w))"

definition inherit_version_id :: "mid \<Rightarrow> mid \<Rightarrow> world \<Rightarrow> outcome" where
  "inherit_version_id self p w =
     (let s = the_mapper w self; par = the_mapper w p in
      case version_id_col s of
        None \<Rightarrow>
          Returns (upd_mapper self (\<lambda>x. x\<lparr>
            version_id_col := version_id_col par,
            version_id_generator := version_id_generator par\<rparr>) w)
      | Some v \<Rightarrow>
          if version_id_col par \<noteq> None \<and> Some v \<noteq> version_id_col par then
            Returns (warn
              ''Inheriting version_id_col '%s' does not match inherited version_id_col '%s' and will not automatically populate the inherited versioning column. version_id_col should only be specified on the base-most mapper that includes versioning.''
              [FCol v, FCol (the (version_id_col par))] w)
          else Returns w)"

definition propagate_from_parent :: "mid \<Rightarrow> mid \<Rightarrow> world \<Rightarrow> outcome" where
  "propagate_from_parent self p w =
     (let par = the_mapper w p;
          w1 = upd_mapper self (\<lambda>x. x\<lparr>polymorphic_map := polymorphic_map par, batch := batch par\<rparr>) w;
          w2 = upd_mapper p (\<lambda>x. x\<lparr>inheriting_mappers := inheriting_mappers x @ [self]\<rparr>) w1;
          par2 = the_mapper w2 p;
          w3 = upd_mapper self (\<lambda>x. x\<lparr>
                 base_mapper := base_mapper par2,
                 passive_updates := passive_updates par2,
                 passive_deletes := (passive_deletes par2 \<or> passive_deletes x)\<rparr>) w2
      in case all_tables par2 of
           None \<Rightarrow> Raises (no_attribute ''_all_tables'') w3
         | Some t \<Rightarrow> Returns (upd_mapper self (\<lambda>x. x\<lparr>all_tables := Some t\<rparr>) w3))"

text \<open>
  Lines 1080 to 1093: the mapper enters the polymorphic map, which by now is the parent's,
  under its polymorphic identity; an identity already in the map is warned about and
  then overwritten.
\<close>

definition register_polymorphic_identity :: "mid \<Rightarrow> world \<Rightarrow> outcome" where
  "register_polymorphic_identity self w =
     (let s = the_mapper w self in
      case polymorphic_identity s of
        None \<Rightarrow> Returns w
      | Some v \<Rightarrow>
          (let w' =
             (case get_item w (polymorphic_map s) v of
                Some old \<Rightarrow>
                  warn ''Reassigning polymorphic association for identity %r from %r to %r: Check for duplicate use of %r as value for polymorphic_identity.''
                    [FVal (Some v), FMapper old, FMapper self, FVal (Some v)] w
              | None \<Rightarrow> w)
           in Returns (set_item (polymorphic_map s) v self w')))"

text \<open>Lines 1095 to 1108: the \<^verbatim>\<open>polymorphic_load\<close> setting.\<close>

definition configure_polymorphic_load :: "env \<Rightarrow> mid \<Rightarrow> mid \<Rightarrow> world \<Rightarrow> outcome" where
  "configure_polymorphic_load E self p w =
     (let s = the_mapper w self in
      if polymorphic_load s \<noteq> None \<and> polymorphic_load s \<noteq> Some [] \<and> concrete s then
        Raises (Exn ArgumentError
          ''polymorphic_load is not currently supported with concrete table inheritance''
          [] None None) w
      else if polymorphic_load s = Some ''inline'' then
        (case add_with_polymorphic_subclass E w p self of
           Some e \<Rightarrow> Raises e w
         | None \<Rightarrow> Returns w)
      else if polymorphic_load s = Some ''selectin'' then Returns w
      else if polymorphic_load s \<noteq> None then
        Raises (Exn ArgumentError ''unknown argument for polymorphic_load: %r''
          [FStr (the (polymorphic_load s))] None None) w
      else Returns w)"

text \<open>Lines 1110 to 1116: a mapper without a parent is the base of its own chain.\<close>

definition configure_base :: "mid \<Rightarrow> world \<Rightarrow> outcome" where
  "configure_base self w =
     (let s = the_mapper w self;
          w1 = w\<lparr>table_sets := table_sets w @ [[]]\<rparr>;
          w2 = upd_mapper self (\<lambda>x. x\<lparr>
                 all_tables := Some (length (table_sets w)),
                 base_mapper := Some self,
                 persist_selectable := local_table x\<rparr>) w1;
          w3 = (case polymorphic_identity s of
                  None \<Rightarrow> w2
                | Some v \<Rightarrow> set_item (polymorphic_map s) v self w2)
      in Returns (upd_mapper self (\<lambda>x. x\<lparr>identity_class := Some (mapper_class x)\<rparr>) w3))"

definition configure_inheriting :: "env \<Rightarrow> mid \<Rightarrow> mid \<Rightarrow> world \<Rightarrow> outcome" where
  "configure_inheriting E self p w =
     run_steps
       [check_inheritance E self p,
        configure_selectable E self p,
        set_identity_class self p,
        inherit_version_id self p,
        propagate_from_parent self p,
        register_polymorphic_identity self,
        configure_polymorphic_load E self p] w"

definition require_persist_selectable :: "mid \<Rightarrow> world \<Rightarrow> outcome" where
  "require_persist_selectable self w =
     (if persist_selectable (the_mapper w self) = None then
        Raises (Exn ArgumentError ''Mapper '%s' does not have a persist_selectable specified.''
                  [FMapper self] None None) w
      else Returns w)"

definition configure_inheritance :: "env \<Rightarrow> mid \<Rightarrow> world \<Rightarrow> outcome" where
  "configure_inheritance E self w0 =
     (let w = upd_mapper self (\<lambda>x. x\<lparr>inheriting_mappers := []\<rparr>) w0;
          s = the_mapper w self in
      and_then
        (case inherits s of
           Some p \<Rightarrow> configure_inheriting E self p w
         | None \<Rightarrow>
             (case inherits_class s of
                Some c \<Rightarrow>
                  (case class_mapper E w c of
                     Inl e \<Rightarrow> Raises e w
                   | Inr p \<Rightarrow>
                       configure_inheriting E self p
                         (upd_mapper self (\<lambda>x. x\<lparr>inherits := Some p, inherits_class := None\<rparr>) w))
              | None \<Rightarrow> configure_base self w))
        (require_persist_selectable self))"


section \<open>Class binding\<close>

definition manager_of_class :: "world \<Rightarrow> cls \<Rightarrow> manager option" where
  "manager_of_class w c = map_of (class_managers w) c"

text \<open>A class manager is mapped when its \<^verbatim>\<open>mapper\<close> attribute has been set.\<close>

definition is_mapped :: "manager \<Rightarrow> bool" where
  "is_mapped mg = (mgr_mapper mg \<noteq> None)"

definition upd_registry :: "rid \<Rightarrow> (registry_obj \<Rightarrow> registry_obj) \<Rightarrow> world \<Rightarrow> world" where
  "upd_registry r f w = w\<lparr>registries := (registries w)[r := f (registries w ! r)]\<rparr>"

text \<open>
  Modelled from the spec: \<^verbatim>\<open>instrumentation.register_class\<close> and the registry's
  \<^verbatim>\<open>_add_manager\<close> and \<^verbatim>\<open>_add_non_primary_mapper\<close>, which are not part of
  \<^verbatim>\<open>mapper.py\<close>. Class binding is to "associate the bound class with this descriptor as
  its primary mapper": the manager of the class, made when the class has none, takes the
  mapper; a registry is "a mapping from bound classes to their primary Entity Descriptor",
  so adding a manager gives the manager its registry and the registry the class.
\<close>

definition register_class :: "cls \<Rightarrow> mid \<Rightarrow> world \<Rightarrow> manager \<times> world" where
  "register_class c self w =
     (let mg = (case manager_of_class w c of
                  None \<Rightarrow> \<lparr>mgr_mapper = Some self, mgr_registry = None\<rparr>
                | Some old \<Rightarrow> old\<lparr>mgr_mapper := Some self\<rparr>)
      in (mg, w\<lparr>class_managers := AList.update c mg (class_managers w)\<rparr>))"

definition add_manager :: "rid \<Rightarrow> cls \<Rightarrow> world \<Rightarrow> world" where
  "add_manager r c w =
     (let w1 = upd_registry r (\<lambda>x. x\<lparr>managers := managers x @ [c]\<rparr>) w
      in case manager_of_class w1 c of
           None \<Rightarrow> w1
         | Some mg \<Rightarrow>
             w1\<lparr>class_managers := AList.update c (mg\<lparr>mgr_registry := Some r\<rparr>) (class_managers w1)\<rparr>)"

definition add_non_primary_mapper :: "rid \<Rightarrow> mid \<Rightarrow> world \<Rightarrow> world" where
  "add_non_primary_mapper r self w =
     upd_registry r (\<lambda>x. x\<lparr>non_primary_mappers := non_primary_mappers x @ [self]\<rparr>) w"

text \<open>
  Lines 1272 to 1292: the methods of the class are scanned for validators; a second
  validator for a name that already has one is an error.
\<close>

fun scan_validators :: "mid \<Rightarrow> string list \<Rightarrow> string list \<Rightarrow> exn option" where
  "scan_validators self seen [] = None"
| "scan_validators self seen (name # names) =
     (if name \<in> set seen then
        Some (Exn InvalidRequestError
          ''A validation function for mapped attribute %r on mapper %s already exists.''
          [FStr name, FMapper self] None None)
      else scan_validators self (seen @ [name]) names)"

definition configure_class_instrumentation :: "env \<Rightarrow> mid \<Rightarrow> world \<Rightarrow> outcome" where
  "configure_class_instrumentation E self w =
     (let s = the_mapper w self;
          manager = manager_of_class w (mapper_class s) in
      if non_primary s then
        (case manager of
           None \<Rightarrow>
             Raises (Exn InvalidRequestError
               ''Class %s has no primary mapper configured.  Configure a primary mapper first before setting up a non primary Mapper.''
               [FCls (mapper_class s)] None None) w
         | Some mg \<Rightarrow>
             (case mgr_mapper mg of
                None \<Rightarrow>
                  Raises (Exn InvalidRequestError
                    ''Class %s has no primary mapper configured.  Configure a primary mapper first before setting up a non primary Mapper.''
                    [FCls (mapper_class s)] None None) w
              | Some primary \<Rightarrow>
                  (let w1 = upd_mapper self (\<lambda>x. x\<lparr>registry := mgr_registry mg\<rparr>) w in
                   case identity_class (the_mapper w1 primary) of
                     None \<Rightarrow> Raises (no_attribute ''_identity_class'') w1
                   | Some c \<Rightarrow>
                       (let w2 = upd_mapper self (\<lambda>x. x\<lparr>identity_class := Some c\<rparr>) w1 in
                        case mgr_registry mg of
                          None \<Rightarrow> Raises (no_attribute ''_add_non_primary_mapper'') w2
                        | Some r \<Rightarrow> Returns (add_non_primary_mapper r self w2)))))
      else if (case manager of None \<Rightarrow> False | Some mg \<Rightarrow> is_mapped mg) then
        Raises (Exn ArgumentError ''Class '%s' already has a primary mapper defined. ''
                  [FCls (mapper_class s)] None None) w
      else
        (let (mg, w1) = register_class (mapper_class s) self w;
             w2 = (case mgr_registry mg of
                     Some r \<Rightarrow> w1
                   | None \<Rightarrow>
                       add_manager (legacy_registry E) (mapper_class s)
                         (warn ''Calling the mapper() function directly outside of a declarative registry is deprecated. Please use the sqlalchemy.orm.registry.map_imperatively() function for a classical mapping.'' [] w1));
             reg = (case manager_of_class w2 (mapper_class s) of
                      None \<Rightarrow> None
                    | Some mg' \<Rightarrow> mgr_registry mg');
             w3 = upd_mapper self (\<lambda>x. x\<lparr>registry := reg\<rparr>) w2
         in case scan_validators self [] (validator_names E (mapper_class s)) of
              Some e \<Rightarrow> Raises e w3
            | None \<Rightarrow> Returns w3))"

section \<open>Property configuration and the polymorphic setter\<close>

text \<open>
  Property configuration (\<^verbatim>\<open>_configure_properties\<close>) and the configuration of the
  polymorphic setter (\<^verbatim>\<open>_configure_polymorphic_setter\<close>) build property objects out of
  columns, class attributes and instrumentation. Of a mapper under construction they
  write the property map, the reverse map from columns to properties and, for the setter,
  \<^verbatim>\<open>polymorphic_on\<close>; they make new property objects; and they may raise. These are the
  effects kept here, with the values taken from the environment.
\<close>

definition configure_properties :: "env \<Rightarrow> mid \<Rightarrow> world \<Rightarrow> outcome" where
  "configure_properties E self w =
     (case property_configuration E w self of
        Inl e \<Rightarrow> Raises e w
      | Inr r \<Rightarrow>
          Returns (upd_mapper self
            (\<lambda>x. x\<lparr>props := res_props r, columntoproperty := res_columntoproperty r\<rparr>)
            (w\<lparr>properties := properties w @ res_created r\<rparr>)))"

definition configure_polymorphic_setter :: "env \<Rightarrow> mid \<Rightarrow> world \<Rightarrow> outcome" where
  "configure_polymorphic_setter E self w =
     (case polymorphic_setter E w self of
        Inl e \<Rightarrow> Raises e w
      | Inr r \<Rightarrow>
          Returns (upd_mapper self
            (\<lambda>x. x\<lparr>polymorphic_on := set_polymorphic_on r,
                   props := set_props r,
                   columntoproperty := set_columntoproperty r\<rparr>)
            (w\<lparr>properties := properties w @ set_created r\<rparr>)))"


section \<open>Primary-key derivation\<close>

definition is_truthy :: "'a list option \<Rightarrow> bool" where
  "is_truthy xs = (xs \<noteq> None \<and> xs \<noteq> Some [])"

text \<open>
  Lines 1316 to 1325: a table whose primary key is not empty and lies within the mapped
  primary-key columns is recorded with those columns, in the table's own order.
\<close>

definition recorded_pks :: "env \<Rightarrow> world \<Rightarrow> sel list \<Rightarrow> col list \<Rightarrow> (sel \<times> col list) list" where
  "recorded_pks E w ts pk_cols =
     map (\<lambda>t. (t, filter (\<lambda>c. c \<in> set pk_cols) (remdups (sel_primary_key E w t))))
       (filter (\<lambda>t. sel_primary_key E w t \<noteq> [] \<and> set (sel_primary_key E w t) \<subseteq> set pk_cols) ts)"

definition recorded_cols :: "env \<Rightarrow> world \<Rightarrow> sel list \<Rightarrow> col list \<Rightarrow> (sel \<times> col list) list" where
  "recorded_cols E w ts all_cols =
     map (\<lambda>t. (t, filter (\<lambda>c. c \<in> set all_cols) (remdups (sel_columns E w t)))) ts"

definition update_table_set :: "setid \<Rightarrow> sel list \<Rightarrow> world \<Rightarrow> world" where
  "update_table_set i ts w =
     w\<lparr>table_sets := (table_sets w)[i := remdups (table_sets w ! i @ ts)]\<rparr>"

text \<open>Lines 1302 to 1325.\<close>

definition collect_pks :: "env \<Rightarrow> mid \<Rightarrow> world \<Rightarrow> outcome" where
  "collect_pks E self w =
     (let s = the_mapper w self in
      case persist_selectable s of
        None \<Rightarrow> Raises (no_attribute ''primary_key'') w
      | Some ps \<Rightarrow>
          (let tbls = find_tables E w ps;
               all_cols = remdups (concat (map (\<lambda>(c, pr). proxy_set E c) (columntoproperty s)));
               pk_cols = filter (col_primary_key E) all_cols;
               ts = remdups (tbls @ [ps]);
               w1 = upd_mapper self (\<lambda>x. x\<lparr>tables := tbls, pks_by_table := [], cols_by_table := []\<rparr>) w
           in case all_tables s of
                None \<Rightarrow> Raises (no_attribute ''_all_tables'') w1
              | Some i \<Rightarrow>
                  Returns (upd_mapper self
                    (\<lambda>x. x\<lparr>pks_by_table := recorded_pks E w ts pk_cols,
                           cols_by_table := recorded_cols E w ts all_cols\<rparr>)
                    (update_table_set i ts w1))))"

text \<open>Lines 1330 to 1333: each column of an explicit primary key joins its table's entry.\<close>

fun add_pk_argument ::
  "env \<Rightarrow> col list \<Rightarrow> (sel \<times> col list) list \<Rightarrow> exn option \<times> (sel \<times> col list) list" where
  "add_pk_argument E [] pks = (None, pks)"
| "add_pk_argument E (k # ks) pks =
     (case col_table E k of
        None \<Rightarrow> (Some (no_attribute ''table''), pks)
      | Some t \<Rightarrow>
          (let cur = (case map_of pks t of None \<Rightarrow> [] | Some cs \<Rightarrow> cs)
           in add_pk_argument E ks (AList.update t (if k \<in> set cur then cur else cur @ [k]) pks)))"

definition could_not_assemble :: "mid \<Rightarrow> sel \<Rightarrow> exn" where
  "could_not_assemble self ps =
     Exn ArgumentError
       (''Mapper %s could not assemble any primary key columns for mapped table '%s'' @ apostrophe)
       [FMapper self, FSel ps] None None"

definition is_table :: "world \<Rightarrow> sel \<Rightarrow> bool" where
  "is_table w t = (t < length (selectables w) \<and> (case selectables w ! t of Table n \<Rightarrow> True | _ \<Rightarrow> False))"

text \<open>Lines 1327 to 1353.\<close>

definition check_pks :: "env \<Rightarrow> mid \<Rightarrow> world \<Rightarrow> outcome" where
  "check_pks E self w =
     (let s = the_mapper w self in
      case persist_selectable s of
        None \<Rightarrow> Raises (no_attribute ''primary_key'') w
      | Some ps \<Rightarrow>
          if is_truthy (primary_key_argument s) then
            (case add_pk_argument E (the (primary_key_argument s)) (pks_by_table s) of
               (err, pks) \<Rightarrow>
                 (let w1 = upd_mapper self (\<lambda>x. x\<lparr>pks_by_table := pks\<rparr>) w
                  in case err of Some e \<Rightarrow> Raises e w1 | None \<Rightarrow> Returns w1))
          else if map_of (pks_by_table s) ps = None \<or> map_of (pks_by_table s) ps = Some [] then
            Raises (could_not_assemble self ps) w
          else
            (case local_table s of
               None \<Rightarrow> Returns w
             | Some lt \<Rightarrow>
                 if map_of (pks_by_table s) lt = None \<and> is_table w lt then
                   Returns (warn
                     ''Could not assemble any primary keys for locally mapped table '%s' - no rows will be persisted in this Table.''
                     [FSel lt] w)
                 else Returns w))"

text \<open>Lines 1355 to 1388.\<close>

definition derive_primary_key :: "env \<Rightarrow> mid \<Rightarrow> world \<Rightarrow> outcome" where
  "derive_primary_key E self w =
     (let s = the_mapper w self in
      if (inherits s \<noteq> None \<or> inherits_class s \<noteq> None) \<and> \<not> concrete s
         \<and> \<not> is_truthy (primary_key_argument s) then
        (case inherits s of
           None \<Rightarrow> Raises (no_attribute ''primary_key'') w
         | Some p \<Rightarrow>
             Returns (upd_mapper self (\<lambda>x. x\<lparr>primary_key := primary_key (the_mapper w p)\<rparr>) w))
      else
        (case persist_selectable s of
           None \<Rightarrow> Raises (no_attribute ''corresponding_column'') w
         | Some ps \<Rightarrow>
             (let reduced =
                (if is_truthy (primary_key_argument s) then
                   Inr (reduce_columns E
                          (map (corresponding_column E w ps) (the (primary_key_argument s))))
                 else
                   (case map_of (pks_by_table s) ps of
                      None \<Rightarrow> Inl (Exn (OtherError ''KeyError'') ''%s'' [FSel ps] None None)
                    | Some cs \<Rightarrow> Inr (reduce_columns E (map Some cs))))
              in case reduced of
                   Inl e \<Rightarrow> Raises e w
                 | Inr pk \<Rightarrow>
                     if length pk = 0 then Raises (could_not_assemble self ps) w
                     else Returns (upd_mapper self (\<lambda>x. x\<lparr>primary_key := Some pk\<rparr>) w))))"

text \<open>
  \<^verbatim>\<open>_identity_key_props\<close>: the property of each primary-key column; a column without a
  property is \<^verbatim>\<open>UnmappedColumnError\<close> (\<^verbatim>\<open>_ColumnMapping.__missing__\<close>).
\<close>

fun lookup_props :: "mid \<Rightarrow> (col \<times> pid) list \<Rightarrow> col list \<Rightarrow> exn + pid list" where
  "lookup_props self c2p [] = Inr []"
| "lookup_props self c2p (c # cs) =
     (case map_of c2p c of
        None \<Rightarrow> Inl (Exn UnmappedColumnError ''No column %s is configured on mapper %s...''
                       [FCol c, FMapper self] None None)
      | Some pr \<Rightarrow>
          (case lookup_props self c2p cs of Inl e \<Rightarrow> Inl e | Inr prs \<Rightarrow> Inr (pr # prs)))"

definition identity_key_props :: "world \<Rightarrow> mid \<Rightarrow> exn + pid list" where
  "identity_key_props w self =
     (case primary_key (the_mapper w self) of
        None \<Rightarrow> Inl not_iterable
      | Some pk \<Rightarrow> lookup_props self (columntoproperty (the_mapper w self)) pk)"

text \<open>Lines 1390 to 1400.\<close>

definition mark_readonly_props :: "env \<Rightarrow> mid \<Rightarrow> world \<Rightarrow> outcome" where
  "mark_readonly_props E self w =
     (let s = the_mapper w self in
      if columntoproperty s = [] then
        Returns (upd_mapper self (\<lambda>x. x\<lparr>readonly_props := []\<rparr>) w)
      else
        (case identity_key_props w self of
           Inl e \<Rightarrow> Raises e w
         | Inr ikp \<Rightarrow>
             Returns (upd_mapper self (\<lambda>x. x\<lparr>readonly_props :=
               remdups (map snd (filter
                 (\<lambda>(c, pr). pr \<notin> set ikp \<and>
                    (case col_table E c of
                       None \<Rightarrow> True
                     | Some t \<Rightarrow> map_of (cols_by_table s) t = None))
                 (columntoproperty s)))\<rparr>) w)))"

definition configure_pks :: "env \<Rightarrow> mid \<Rightarrow> world \<Rightarrow> outcome" where
  "configure_pks E self w =
     run_steps
       [collect_pks E self, check_pks E self, derive_primary_key E self,
        mark_readonly_props E self] w"

section \<open>Construction\<close>

text \<open>
  Modelled from the spec: the registry's \<^verbatim>\<open>_flag_new_mapper\<close>, which is not part of
  \<^verbatim>\<open>mapper.py\<close>. The last step of construction is to "flag the descriptor pending in
  its registry": the mapper is ready for configuration and its registry has new mappers.
\<close>

definition flag_new_mapper :: "mid \<Rightarrow> world \<Rightarrow> outcome" where
  "flag_new_mapper self w =
     (case registry (the_mapper w self) of
        None \<Rightarrow> Raises (no_attribute ''_flag_new_mapper'') w
      | Some r \<Rightarrow>
          Returns (upd_registry r (\<lambda>x. x\<lparr>new_mappers := True\<rparr>)
                    (upd_mapper self (\<lambda>x. x\<lparr>ready_for_configure := True\<rparr>) w)))"

text \<open>
  \<^verbatim>\<open>_expire_memoizations\<close> resets the memoized attributes of the mapper and its
  ancestors. Memoized attributes are computed on demand here, so all that is left of the
  method is its walk to the root.
\<close>

definition expire_memoizations :: "mid \<Rightarrow> world \<Rightarrow> outcome" where
  "expire_memoizations self w =
     (case iterate_to_root w (Some self) of None \<Rightarrow> Diverges | Some ms \<Rightarrow> Returns w)"

datatype inherits_arg = InheritsMapper mid | InheritsClass cls

record mapper_args =
  arg_class :: cls
  arg_local_table :: "sel option"
  arg_primary_key :: "col list option"
  arg_non_primary :: bool
  arg_inherits :: "inherits_arg option"
  arg_inherit_condition :: "clause option"
  arg_inherit_foreign_keys :: "col list"
  arg_version_id_col :: "col option"
  arg_version_id_generator :: "nat option"
  arg_polymorphic_on :: "col option"
  arg_polymorphic_map :: "dictid option"
  arg_polymorphic_identity :: "pyval option"
  arg_concrete :: bool
  arg_polymorphic_load :: "string option"
  arg_batch :: bool
  arg_passive_updates :: bool
  arg_passive_deletes :: bool

text \<open>
  Lines 560 to 652 of \<^verbatim>\<open>Mapper.__init__\<close>: the attributes of the new mapper, from the
  arguments and the class-level defaults. \<open>d\<close> is the polymorphic map: the one passed as
  \<^verbatim>\<open>_polymorphic_map\<close>, or a new empty dictionary.
\<close>

definition new_mapper :: "mapper_args \<Rightarrow> dictid \<Rightarrow> mapper" where
  "new_mapper a d =
     \<lparr>mapper_class = arg_class a,
      non_primary = arg_non_primary a,
      concrete = arg_concrete a,
      single = False,
      inherits = (case arg_inherits a of Some (InheritsMapper p) \<Rightarrow> Some p | _ \<Rightarrow> None),
      inherits_class = (case arg_inherits a of Some (InheritsClass c) \<Rightarrow> Some c | _ \<Rightarrow> None),
      local_table = arg_local_table a,
      persist_selectable = None,
      inherit_condition = arg_inherit_condition a,
      inherit_foreign_keys = arg_inherit_foreign_keys a,
      inherits_equated_pairs = None,
      primary_key_argument = arg_primary_key a,
      primary_key = None,
      polymorphic_on = arg_polymorphic_on a,
      polymorphic_identity = arg_polymorphic_identity a,
      polymorphic_load = arg_polymorphic_load a,
      polymorphic_map = d,
      identity_class = None,
      version_id_col = arg_version_id_col a,
      version_id_generator = arg_version_id_generator a,
      batch = arg_batch a,
      passive_updates = arg_passive_updates a,
      passive_deletes = arg_passive_deletes a,
      requires_row_aliasing = False,
      inheriting_mappers = [],
      base_mapper = None,
      all_tables = None,
      registry = None,
      props = [],
      columntoproperty = [],
      tables = [],
      pks_by_table = [],
      cols_by_table = [],
      readonly_props = [],
      configured = False,
      configure_failed = None,
      ready_for_configure = False\<rparr>"

definition allocate_mapper :: "mapper_args \<Rightarrow> world \<Rightarrow> world" where
  "allocate_mapper a w =
     (case arg_polymorphic_map a of
        None \<Rightarrow>
          w\<lparr>mappers := mappers w @ [new_mapper a (length (polymorphic_maps w))],
            polymorphic_maps := polymorphic_maps w @ [[]]\<rparr>
      | Some d \<Rightarrow> w\<lparr>mappers := mappers w @ [new_mapper a d]\<rparr>)"

text \<open>
  Lines 657 to 666: the steps of construction, under the configuration mutex. The new
  mapper is the object \<open>length (mappers w)\<close>. Nothing catches an exception here: a step
  that raises ends the construction with the store as that step left it.
\<close>

definition Mapper_init :: "env \<Rightarrow> mapper_args \<Rightarrow> world \<Rightarrow> outcome" where
  "Mapper_init E a w =
     (let self = length (mappers w) in
      run_steps
        [configure_inheritance E self,
         configure_class_instrumentation E self,
         configure_properties E self,
         configure_polymorphic_setter E self,
         configure_pks E self,
         flag_new_mapper self,
         expire_memoizations self]
        (allocate_mapper a w))"


section \<open>The configuration pass\<close>

definition the_prop :: "world \<Rightarrow> pid \<Rightarrow> property" where
  "the_prop w pr = properties w ! pr"

definition upd_prop :: "pid \<Rightarrow> (property \<Rightarrow> property) \<Rightarrow> world \<Rightarrow> world" where
  "upd_prop pr f w = w\<lparr>properties := (properties w)[pr := f (properties w ! pr)]\<rparr>"

text \<open>
  Modelled from the spec: \<^verbatim>\<open>MapperProperty.init\<close>, which is not part of
  \<^verbatim>\<open>mapper.py\<close>. A property is "initialized (phase 2) exactly once": initialisation marks
  the property as started, does the work of the property's kind, which may raise, and
  marks it as finished.
\<close>

definition prop_init :: "env \<Rightarrow> pid \<Rightarrow> world \<Rightarrow> outcome" where
  "prop_init E pr w =
     (let w1 = emit (EvPropInit pr) (upd_prop pr (\<lambda>x. x\<lparr>configure_started := True\<rparr>) w)
      in case do_init E w1 pr of
           Some e \<Rightarrow> Raises e w1
         | None \<Rightarrow> Returns (upd_prop pr (\<lambda>x. x\<lparr>configure_finished := True\<rparr>) w1))"

text \<open>Lines 1895 to 1903: the loop of \<^verbatim>\<open>_post_configure_properties\<close>.\<close>

fun init_props :: "env \<Rightarrow> mid \<Rightarrow> (string \<times> pid) list \<Rightarrow> world \<Rightarrow> outcome" where
  "init_props E self [] w = Returns w"
| "init_props E self ((key, pr) # rest) w =
     and_then
       (if parent (the_prop w pr) = Some self \<and> \<not> configure_started (the_prop w pr)
        then prop_init E pr w else Returns w)
       (\<lambda>w1. and_then
          (if configure_finished (the_prop w1 pr) then
             (case post_instrument_class E w1 pr self of
                Some e \<Rightarrow> Raises e w1
              | None \<Rightarrow> Returns (emit (EvPostInstrumentClass pr self) w1))
           else Returns w1)
          (init_props E self rest))"

definition post_configure_properties :: "env \<Rightarrow> mid \<Rightarrow> world \<Rightarrow> outcome" where
  "post_configure_properties E self w =
     and_then (init_props E self (props (the_mapper w self)) w)
       (\<lambda>w1. Returns (upd_mapper self (\<lambda>x. x\<lparr>configured := True\<rparr>) w1))"

definition dispatch_mapper_configured :: "env \<Rightarrow> mid \<Rightarrow> world \<Rightarrow> outcome" where
  "dispatch_mapper_configured E m w =
     (let w1 = emit (EvMapperConfigured m) w
      in case mapper_configured E w1 m of Some e \<Rightarrow> Raises e w1 | None \<Rightarrow> Returns w1)"

text \<open>
  Lines 3387 to 3392: the listeners of \<^verbatim>\<open>before_mapper_configured\<close> run in order; the
  first that answers \<^verbatim>\<open>EXT_SKIP\<close> ends the loop.
\<close>

fun run_hooks :: "(world \<Rightarrow> bool) list \<Rightarrow> world \<Rightarrow> bool" where
  "run_hooks [] w = False"
| "run_hooks (fn # fns) w = (if fn w then True else run_hooks fns w)"

definition failed_to_initialize :: "mid \<Rightarrow> exn \<Rightarrow> exn" where
  "failed_to_initialize m cf =
     Exn InvalidRequestError
       ''One or more mappers failed to initialize - can't proceed with initialization of other mappers. Triggering mapper: '%s'. Original exception was: %s''
       [FMapper m, FExn cf] None (Some cf)"

text \<open>Lines 3408 to 3416: the deferred initialisation of one mapper and its handler.\<close>

definition finish_configuration :: "env \<Rightarrow> mid \<Rightarrow> world \<Rightarrow> outcome" where
  "finish_configuration E m w =
     (case run_steps
             [post_configure_properties E m, expire_memoizations m,
              dispatch_mapper_configured E m] w of
        Raises exc w1 \<Rightarrow>
          Raises exc
            (if exc_configure_failed exc = None
             then upd_mapper m (\<lambda>x. x\<lparr>configure_failed := Some exc\<rparr>) w1
             else w1)
      | other \<Rightarrow> other)"

text \<open>
  Lines 3387 to 3416: the body of the loop over the mappers of a registry; the first
  component of the result says whether a listener signalled \<^verbatim>\<open>EXT_SKIP\<close>.
\<close>

definition configure_mapper :: "env \<Rightarrow> mid \<Rightarrow> world \<Rightarrow> bool \<times> outcome" where
  "configure_mapper E m w =
     (if run_hooks (before_mapper_configured E m) w then (True, Returns w)
      else
        (False,
         case configure_failed (the_mapper w m) of
           Some cf \<Rightarrow> Raises (failed_to_initialize m cf) w
         | None \<Rightarrow>
             if \<not> configured (the_mapper w m) then finish_configuration E m w
             else Returns w))"

text \<open>
  Modelled from the spec: the registry's \<^verbatim>\<open>_mappers_to_configure\<close>, which is not part of
  \<^verbatim>\<open>mapper.py\<close>. A registry holds "a pending-set of not-yet-configured descriptors": the
  mappers of its mapped classes and its non-primary mappers that are not configured. The
  enumeration is lazy, so whether a mapper is configured is asked when its turn comes, in
  \<open>configure_mappers_of\<close>.
\<close>

definition mappers_to_configure :: "world \<Rightarrow> rid \<Rightarrow> mid list" where
  "mappers_to_configure w r =
     concat (map (\<lambda>c. case manager_of_class w c of
                        None \<Rightarrow> []
                      | Some mg \<Rightarrow> (case mgr_mapper mg of None \<Rightarrow> [] | Some m \<Rightarrow> [m]))
                 (managers (registries w ! r)))
     @ non_primary_mappers (registries w ! r)"

fun configure_mappers_of :: "env \<Rightarrow> mid list \<Rightarrow> bool \<Rightarrow> world \<Rightarrow> bool \<times> outcome" where
  "configure_mappers_of E [] has_skip w = (has_skip, Returns w)"
| "configure_mappers_of E (m # ms) has_skip w =
     (if configured (the_mapper w m) then configure_mappers_of E ms has_skip w
      else
        (case configure_mapper E m w of
           (skip, Returns w1) \<Rightarrow> configure_mappers_of E ms (has_skip \<or> skip) w1
         | (skip, other) \<Rightarrow> (has_skip \<or> skip, other)))"

text \<open>Lines 3383 to 3424: the loop over the registries.\<close>

fun configure_registry_list :: "env \<Rightarrow> bool \<Rightarrow> rid list \<Rightarrow> rid list \<Rightarrow> world \<Rightarrow> outcome" where
  "configure_registry_list E cascade orig [] w = Returns w"
| "configure_registry_list E cascade orig (r # rs) w =
     (case configure_mappers_of E (mappers_to_configure w r) False w of
        (has_skip, Returns w1) \<Rightarrow>
          (let w2 = (if \<not> has_skip then upd_registry r (\<lambda>x. x\<lparr>new_mappers := False\<rparr>) w1 else w1)
           in if \<not> cascade \<and> list_ex (\<lambda>d. d \<notin> set orig) (dependencies (registries w2 ! r)) then
                Raises (Exn InvalidRequestError
                  ''configure was called with cascade=False but additional registries remain''
                  [] None None) w2
              else configure_registry_list E cascade orig rs w2)
      | (has_skip, other) \<Rightarrow> other)"

definition do_configure_registries :: "env \<Rightarrow> rid list \<Rightarrow> bool \<Rightarrow> world \<Rightarrow> outcome" where
  "do_configure_registries E regs cascade w =
     configure_registry_list E cascade regs (recurse_with_dependencies E w regs) w"

definition any_new_mappers :: "world \<Rightarrow> rid list \<Rightarrow> bool" where
  "any_new_mappers w regs = list_ex (\<lambda>r. new_mappers (registries w ! r)) regs"

text \<open>
  Lines 3343 to 3373. The \<^verbatim>\<open>finally\<close> clause clears \<^verbatim>\<open>_already_compiling\<close> on every
  way out of the \<^verbatim>\<open>try\<close> block; \<^verbatim>\<open>after_configured\<close> is fired only when the block ends
  without \<^verbatim>\<open>return\<close> and without an exception.
\<close>

definition configure_registries :: "env \<Rightarrow> rid list \<Rightarrow> bool \<Rightarrow> world \<Rightarrow> outcome" where
  "configure_registries E regs cascade w =
     (if \<not> any_new_mappers w regs then Returns w
      else if already_compiling w then Returns w
      else
        (let w1 = w\<lparr>already_compiling := True\<rparr> in
         if \<not> any_new_mappers w1 regs then Returns (w1\<lparr>already_compiling := False\<rparr>)
         else
           (case do_configure_registries E regs cascade (emit EvBeforeConfigured w1) of
              Returns w2 \<Rightarrow> Returns (emit EvAfterConfigured (w2\<lparr>already_compiling := False\<rparr>))
            | Raises e w2 \<Rightarrow> Raises e (w2\<lparr>already_compiling := False\<rparr>)
            | Diverges \<Rightarrow> Diverges)))"

definition configure_mappers :: "env \<Rightarrow> world \<Rightarrow> outcome" where
  "configure_mappers E w = configure_registries E [0 ..< length (registries w)] True w"

section \<open>The criterion of single-table inheritance\<close>

text \<open>
  \<^verbatim>\<open>self_and_descendants\<close>: a queue that starts with the mapper; each mapper taken from
  its front is recorded and its inheriting mappers join the back.
\<close>

partial_function (option) descend :: "world \<Rightarrow> mid list \<Rightarrow> mid list \<Rightarrow> mid list option" where
  "descend w stack descendants =
     (case stack of
        [] \<Rightarrow> Some descendants
      | item # rest \<Rightarrow>
          descend w (rest @ inheriting_mappers (the_mapper w item)) (descendants @ [item]))"

declare descend.simps [code]

definition self_and_descendants :: "world \<Rightarrow> mid \<Rightarrow> mid list option" where
  "self_and_descendants w self = descend w [self] []"

text \<open>
  The criterion \<^verbatim>\<open>polymorphic_on._annotate({"parentmapper": self}).in_(...)\<close>: the
  discriminator column, the mapper it is annotated with, and the values.
\<close>

datatype criterion = In_values col mid "pyval option list"

definition single_table_criterion :: "world \<Rightarrow> mid \<Rightarrow> criterion option option" where
  "single_table_criterion w self =
     (let s = the_mapper w self in
      if single s \<and> (inherits s \<noteq> None \<or> inherits_class s \<noteq> None) \<and> polymorphic_on s \<noteq> None then
        (case self_and_descendants w self of
           None \<Rightarrow> None
         | Some ds \<Rightarrow>
             Some (Some (In_values (the (polymorphic_on s)) self
                           (map (\<lambda>m. polymorphic_identity (the_mapper w m)) ds))))
      else Some None)"


section \<open>What a step leaves alone\<close>

text \<open>
  Two stores agree on a projection of the mapper records when every mapper has the same
  value of it in both; they agree but for one mapper when this holds for every other
  mapper. The projections used below: the attributes that construction copies from its
  arguments and never writes again together with the two configuration flags; the
  attributes that inheritance resolution settles; and what a mapper reads of its parent.
\<close>

definition agree :: "(mapper \<Rightarrow> 'a) \<Rightarrow> world \<Rightarrow> world \<Rightarrow> bool" where
  "agree g w w' = (\<forall>q. g (the_mapper w' q) = g (the_mapper w q))"

definition agree_but :: "mid \<Rightarrow> (mapper \<Rightarrow> 'a) \<Rightarrow> world \<Rightarrow> world \<Rightarrow> bool" where
  "agree_but self g w w' = (\<forall>q. q \<noteq> self \<longrightarrow> g (the_mapper w' q) = g (the_mapper w q))"

definition args_of ::
  "mapper \<Rightarrow> cls \<times> bool \<times> bool \<times> pyval option \<times> col list option \<times> bool \<times> exn option" where
  "args_of m = (mapper_class m, non_primary m, concrete m, polymorphic_identity m,
                primary_key_argument m, configured m, configure_failed m)"

definition shape_of ::
  "mapper \<Rightarrow> sel option \<times> sel option \<times> bool \<times> mid option \<times> cls option \<times> dictid
     \<times> setid option \<times> mid list" where
  "shape_of m = (local_table m, persist_selectable m, single m, inherits m, inherits_class m,
                 polymorphic_map m, all_tables m, inheriting_mappers m)"

definition others_of ::
  "mapper \<Rightarrow> cls option \<times> sel option \<times> sel option \<times> bool \<times> mid option \<times> cls option
     \<times> dictid \<times> col option" where
  "others_of m = (identity_class m, local_table m, persist_selectable m, single m, inherits m,
                  inherits_class m, polymorphic_map m, polymorphic_on m)"

definition sel_of :: "mapper \<Rightarrow> sel option \<times> sel option \<times> bool \<times> mid option \<times> cls option" where
  "sel_of m = (local_table m, persist_selectable m, single m, inherits m, inherits_class m)"

text \<open>
  Of the other components of the store: a step keeps the objects when it makes no mapper,
  no selectable and no dictionary and writes to no dictionary; the warnings grow when
  the step only adds to them.
\<close>

definition objects_kept :: "world \<Rightarrow> world \<Rightarrow> bool" where
  "objects_kept w w' =
     (length (mappers w') = length (mappers w) \<and> selectables w' = selectables w
      \<and> polymorphic_maps w' = polymorphic_maps w)"

definition warnings_grow :: "world \<Rightarrow> world \<Rightarrow> bool" where
  "warnings_grow w w' = (\<exists>ws. warnings w' = warnings w @ ws)"

definition count_kept :: "world \<Rightarrow> world \<Rightarrow> bool" where
  "count_kept w w' = (length (mappers w') = length (mappers w))"

text \<open>A step keeps a relation when the relation holds from its start to its end.\<close>

definition keeps :: "(world \<Rightarrow> world \<Rightarrow> bool) \<Rightarrow> (world \<Rightarrow> outcome) \<Rightarrow> bool" where
  "keeps R f = (\<forall>v v'. final_store (f v) = Some v' \<longrightarrow> R v v')"

text \<open>
  The parent that the \<^verbatim>\<open>inherits\<close> argument denotes: the mapper itself, or the primary
  mapper that \<^verbatim>\<open>class_mapper\<close> finds for the class, looked up in the store as it is when
  inheritance resolution starts.
\<close>

definition dict_of :: "mapper_args \<Rightarrow> world \<Rightarrow> dictid" where
  "dict_of a w = (case arg_polymorphic_map a of None \<Rightarrow> length (polymorphic_maps w) | Some d \<Rightarrow> d)"

definition prepared :: "mapper_args \<Rightarrow> world \<Rightarrow> world" where
  "prepared a w =
     upd_mapper (length (mappers w)) (\<lambda>x. x\<lparr>inheriting_mappers := []\<rparr>) (allocate_mapper a w)"

definition parent_of :: "env \<Rightarrow> mapper_args \<Rightarrow> world \<Rightarrow> mid option" where
  "parent_of E a w =
     (case arg_inherits a of
        None \<Rightarrow> None
      | Some (InheritsMapper p) \<Rightarrow> Some p
      | Some (InheritsClass c) \<Rightarrow>
          (case class_mapper E (prepared a w) c of Inl e \<Rightarrow> None | Inr p \<Rightarrow> Some p))"

text \<open>
  The store in which the steps of inheritance resolution run for a mapper with the parent
  \<open>p\<close>: the new mapper refers to its parent as a mapper.
\<close>

definition linked :: "mapper_args \<Rightarrow> mid \<Rightarrow> world \<Rightarrow> world" where
  "linked a p w =
     upd_mapper (length (mappers w)) (\<lambda>x. x\<lparr>inherits := Some p, inherits_class := None\<rparr>)
       (prepared a w)"

section \<open>A worked hierarchy\<close>

text \<open>
  The scenarios of the specification: a table \<^verbatim>\<open>employee\<close> (selectable 0) with the
  columns \<^verbatim>\<open>id\<close> (column 0, the primary key) and \<^verbatim>\<open>discriminator\<close> (column 1), and
  a table \<^verbatim>\<open>manager\<close> (selectable 1) with the column \<^verbatim>\<open>id\<close> (column 2, its primary
  key and a foreign key to \<^verbatim>\<open>employee.id\<close>). The classes are \<^verbatim>\<open>Employee\<close> (0), its
  subclasses \<^verbatim>\<open>Manager\<close> (1) and \<^verbatim>\<open>Engineer\<close> (2), and an unrelated class
  \<^verbatim>\<open>Note\<close> (3), whose table \<^verbatim>\<open>note\<close> (selectable 2) has the one column
  \<^verbatim>\<open>text\<close> (column 3) and no primary key. All
  are instrumented by one registry (0). The environment answers the schema queries for
  these tables and for a join of them, maps one property to each column that the parent
  has not mapped yet, and takes the discriminator from the parent when the mapper names
  none.
\<close>

definition ex_table_cols :: "sel \<Rightarrow> col list" where
  "ex_table_cols t = (if t = 0 then [0, 1] else if t = 1 then [2] else if t = 2 then [3] else [])"

definition ex_is_pk :: "col \<Rightarrow> bool" where
  "ex_is_pk c = (c = 0 \<or> c = 2)"

definition ex_sel_columns :: "world \<Rightarrow> sel \<Rightarrow> col list" where
  "ex_sel_columns w s =
     (case selectables w ! s of
        Table n \<Rightarrow> ex_table_cols s
      | Join l r c \<Rightarrow> ex_table_cols l @ ex_table_cols r
      | OtherSelectable n \<Rightarrow> [])"

definition ex_sel_primary_key :: "world \<Rightarrow> sel \<Rightarrow> col list" where
  "ex_sel_primary_key w s =
     (case selectables w ! s of
        Table n \<Rightarrow> filter ex_is_pk (ex_table_cols s)
      | Join l r c \<Rightarrow> filter ex_is_pk (ex_table_cols l)
      | OtherSelectable n \<Rightarrow> [])"

definition ex_find_tables :: "world \<Rightarrow> sel \<Rightarrow> sel list" where
  "ex_find_tables w s =
     (case selectables w ! s of Join l r c \<Rightarrow> [l, r] | _ \<Rightarrow> [s])"

definition ex_class_mapper :: "world \<Rightarrow> cls \<Rightarrow> exn + mid" where
  "ex_class_mapper w c =
     (case manager_of_class w c of
        None \<Rightarrow> Inl (Exn UnmappedClassError ''Class %s is not mapped'' [FCls c] None None)
      | Some mg \<Rightarrow>
          (case mgr_mapper mg of
             None \<Rightarrow> Inl (Exn UnmappedClassError ''Class %s is not mapped'' [FCls c] None None)
           | Some m \<Rightarrow> Inr m))"

definition ex_property_configuration :: "world \<Rightarrow> mid \<Rightarrow> exn + props_result" where
  "ex_property_configuration w m =
     (let s = the_mapper w m;
          inh_props = (case inherits s of None \<Rightarrow> [] | Some p \<Rightarrow> props (the_mapper w p));
          inh_c2p = (case inherits s of None \<Rightarrow> [] | Some p \<Rightarrow> columntoproperty (the_mapper w p));
          cols = (case persist_selectable s of None \<Rightarrow> [] | Some ps \<Rightarrow> ex_sel_columns w ps);
          fresh = filter (\<lambda>c. map_of inh_c2p c = None) cols;
          n = length (properties w);
          new_c2p = zip fresh [n ..< n + length fresh]
      in Inr \<lparr>res_props = inh_props @ map (\<lambda>(c, pr). (''column'', pr)) new_c2p,
              res_columntoproperty = inh_c2p @ new_c2p,
              res_created = map (\<lambda>c. \<lparr>parent = Some m, configure_started = False,
                                       configure_finished = False\<rparr>) fresh\<rparr>)"

definition ex_polymorphic_setter :: "world \<Rightarrow> mid \<Rightarrow> exn + setter_result" where
  "ex_polymorphic_setter w m =
     (let s = the_mapper w m
      in Inr \<lparr>set_polymorphic_on =
                (case polymorphic_on s of
                   Some c \<Rightarrow> Some c
                 | None \<Rightarrow> (case inherits s of
                              None \<Rightarrow> None
                            | Some p \<Rightarrow> polymorphic_on (the_mapper w p))),
              set_props = props s,
              set_columntoproperty = columntoproperty s,
              set_created = []\<rparr>)"

definition ex_env :: env where
  "ex_env =
     \<lparr>issubclass = (\<lambda>c d. c = d \<or> (d = 0 \<and> (c = 1 \<or> c = 2))),
      class_mapper = ex_class_mapper,
      fk_conditions = (\<lambda>a b. if a = 0 \<and> b = 1 then [Clause 0] else []),
      criterion_as_pairs = (\<lambda>c fks. if c = Some (Clause 0) then [(0, 2)] else []),
      find_tables = ex_find_tables,
      proxy_set = (\<lambda>c. [c]),
      col_primary_key = ex_is_pk,
      col_table = (\<lambda>c. Some (if c = 2 then 1 else if c = 3 then 2 else 0)),
      sel_primary_key = ex_sel_primary_key,
      sel_columns = ex_sel_columns,
      corresponding_column = (\<lambda>w s c. if c \<in> set (ex_sel_columns w s) then Some c else None),
      reduce_columns = (\<lambda>cs. remdups (concat (map (\<lambda>c. case c of None \<Rightarrow> [] | Some x \<Rightarrow> [x]) cs))),
      legacy_registry = 0,
      validator_names = (\<lambda>c. []),
      add_with_polymorphic_subclass = (\<lambda>w p m. None),
      property_configuration = ex_property_configuration,
      polymorphic_setter = ex_polymorphic_setter,
      before_mapper_configured = (\<lambda>m. []),
      do_init = (\<lambda>w pr. None),
      post_instrument_class = (\<lambda>w pr m. None),
      mapper_configured = (\<lambda>w m. None),
      recurse_with_dependencies = (\<lambda>w regs. regs)\<rparr>"

definition ex_store :: world where
  "ex_store =
     \<lparr>mappers = [],
      polymorphic_maps = [],
      table_sets = [],
      selectables = [Table ''employee'', Table ''manager'', Table ''note''],
      properties = [],
      class_managers =
        [(0, \<lparr>mgr_mapper = None, mgr_registry = Some 0\<rparr>),
         (1, \<lparr>mgr_mapper = None, mgr_registry = Some 0\<rparr>),
         (2, \<lparr>mgr_mapper = None, mgr_registry = Some 0\<rparr>),
         (3, \<lparr>mgr_mapper = None, mgr_registry = Some 0\<rparr>)],
      registries = [\<lparr>new_mappers = False, managers = [0, 1, 2, 3], non_primary_mappers = [],
                     dependencies = []\<rparr>],
      already_compiling = False,
      warnings = [],
      events = []\<rparr>"

definition default_args :: "cls \<Rightarrow> mapper_args" where
  "default_args c =
     \<lparr>arg_class = c, arg_local_table = None, arg_primary_key = None, arg_non_primary = False,
      arg_inherits = None, arg_inherit_condition = None, arg_inherit_foreign_keys = [],
      arg_version_id_col = None, arg_version_id_generator = None, arg_polymorphic_on = None,
      arg_polymorphic_map = None, arg_polymorphic_identity = None, arg_concrete = False,
      arg_polymorphic_load = None, arg_batch = True, arg_passive_updates = True,
      arg_passive_deletes = False\<rparr>"

definition employee_args :: mapper_args where
  "employee_args = (default_args 0)\<lparr>arg_local_table := Some 0, arg_polymorphic_on := Some 1,
      arg_polymorphic_identity := Some (StrV ''employee'')\<rparr>"

definition manager_joined_args :: mapper_args where
  "manager_joined_args = (default_args 1)\<lparr>arg_local_table := Some 1,
      arg_inherits := Some (InheritsMapper 0),
      arg_polymorphic_identity := Some (StrV ''manager'')\<rparr>"

definition manager_single_args :: mapper_args where
  "manager_single_args = (default_args 1)\<lparr>arg_inherits := Some (InheritsMapper 0),
      arg_polymorphic_identity := Some (StrV ''manager'')\<rparr>"

definition store_of :: "outcome \<Rightarrow> world" where
  "store_of out = (case final_store out of Some w \<Rightarrow> w | None \<Rightarrow> ex_store)"

definition employee_store :: world where
  "employee_store = store_of (Mapper_init ex_env employee_args ex_store)"

definition ex_row :: row where
  "ex_row = (\<lambda>c. if c = 0 then Some (Some (IntV 7)) else None)"

text \<open>Further constructions in the same schema, used as test inputs below.\<close>

definition manager_single_store :: world where
  "manager_single_store = store_of (Mapper_init ex_env manager_single_args employee_store)"

definition manager_joined_store :: world where
  "manager_joined_store = store_of (Mapper_init ex_env manager_joined_args employee_store)"

definition note_args :: mapper_args where
  "note_args = (default_args 3)\<lparr>arg_local_table := Some 2\<rparr>"

definition note_store :: world where
  "note_store = store_of (Mapper_init ex_env note_args employee_store)"

definition shared_map_args :: mapper_args where
  "shared_map_args = (default_args 3)\<lparr>arg_local_table := Some 1, arg_polymorphic_map := Some 0,
      arg_polymorphic_identity := Some (StrV ''employee'')\<rparr>"

definition manager_duplicate_args :: mapper_args where
  "manager_duplicate_args = (default_args 1)\<lparr>arg_inherits := Some (InheritsMapper 0),
      arg_polymorphic_identity := Some (StrV ''employee'')\<rparr>"

definition manager_plain_args :: mapper_args where
  "manager_plain_args = (default_args 1)\<lparr>arg_inherits := Some (InheritsMapper 0)\<rparr>"

definition np_employee_args :: mapper_args where
  "np_employee_args = (default_args 0)\<lparr>arg_local_table := Some 0, arg_non_primary := True\<rparr>"

definition np_manager_args :: mapper_args where
  "np_manager_args = (default_args 1)\<lparr>arg_inherits := Some (InheritsMapper 2),
      arg_non_primary := True, arg_polymorphic_identity := Some (StrV ''manager'')\<rparr>"

definition non_primary_store :: world where
  "non_primary_store =
     store_of (run_steps
       [Mapper_init ex_env employee_args, Mapper_init ex_env manager_plain_args,
        Mapper_init ex_env np_employee_args] ex_store)"

definition unrelated_joined_args :: mapper_args where
  "unrelated_joined_args = (default_args 3)\<lparr>arg_local_table := Some 2,
      arg_inherits := Some (InheritsMapper 0)\<rparr>"

definition engineer_joined_args :: mapper_args where
  "engineer_joined_args = (default_args 2)\<lparr>arg_local_table := Some 2,
      arg_inherits := Some (InheritsMapper 0)\<rparr>"

definition two_paths_env :: env where
  "two_paths_env = ex_env\<lparr>fk_conditions := (\<lambda>a b. [Clause 0, Clause 1])\<rparr>"

definition skip_env :: env where
  "skip_env = ex_env\<lparr>before_mapper_configured :=
      (\<lambda>m. if m = 0 then [\<lambda>w. \<not> configured (the_mapper w 1)] else [])\<rparr>"

definition failing_init_env :: env where
  "failing_init_env = ex_env\<lparr>do_init :=
      (\<lambda>w pr. if pr = 1 then Some (Exn ArgumentError ''relationship target not found'' [] None None)
               else None)\<rparr>"

section \<open>Store operations and frames: basic facts\<close>

lemma the_mapper_upd:
  "the_mapper (upd_mapper m f w) q =
     (if q = m \<and> m < length (mappers w) then f (the_mapper w m) else the_mapper w q)"
  by (cases "q = m") (simp_all add: the_mapper_def upd_mapper_def list_update_beyond)

lemma upd_mapper_components [simp]:
  "length (mappers (upd_mapper m f w)) = length (mappers w)"
  "polymorphic_maps (upd_mapper m f w) = polymorphic_maps w"
  "table_sets (upd_mapper m f w) = table_sets w"
  "selectables (upd_mapper m f w) = selectables w"
  "properties (upd_mapper m f w) = properties w"
  "class_managers (upd_mapper m f w) = class_managers w"
  "registries (upd_mapper m f w) = registries w"
  "already_compiling (upd_mapper m f w) = already_compiling w"
  "warnings (upd_mapper m f w) = warnings w"
  "events (upd_mapper m f w) = events w"
  by (simp_all add: upd_mapper_def)

lemma the_mapper_other [simp]:
  "the_mapper (warn msg args w) q = the_mapper w q"
  "the_mapper (emit ev w) q = the_mapper w q"
  "the_mapper (set_item d k v w) q = the_mapper w q"
  "the_mapper (upd_registry r g w) q = the_mapper w q"
  "the_mapper (upd_prop pr h w) q = the_mapper w q"
  "the_mapper (update_table_set i ts w) q = the_mapper w q"
  "the_mapper (add_non_primary_mapper r q' w) q = the_mapper w q"
  "the_mapper (add_manager r c w) q = the_mapper w q"
  "the_mapper (snd (register_class c q' w)) q = the_mapper w q"
  "the_mapper (w\<lparr>properties := ps\<rparr>) q = the_mapper w q"
  "the_mapper (w\<lparr>table_sets := tss\<rparr>) q = the_mapper w q"
  "the_mapper (w\<lparr>selectables := ss\<rparr>) q = the_mapper w q"
  "the_mapper (w\<lparr>already_compiling := b\<rparr>) q = the_mapper w q"
  by (simp_all add: the_mapper_def warn_def emit_def set_item_def upd_registry_def upd_prop_def
      update_table_set_def add_non_primary_mapper_def add_manager_def register_class_def
      Let_def split: option.splits)

lemma agree_refl [simp]: "agree g w w"
  by (simp add: agree_def)

lemma agree_trans: "agree g w w1 \<Longrightarrow> agree g w1 w2 \<Longrightarrow> agree g w w2"
  by (simp add: agree_def)

lemma agree_upd: "(\<And>x. g (f x) = g x) \<Longrightarrow> agree g w w1 \<Longrightarrow> agree g w (upd_mapper m f w1)"
  by (simp add: agree_def the_mapper_upd)

lemma agree_other:
  "agree g w w1 \<Longrightarrow> agree g w (warn msg args w1)"
  "agree g w w1 \<Longrightarrow> agree g w (emit ev w1)"
  "agree g w w1 \<Longrightarrow> agree g w (set_item d k v w1)"
  "agree g w w1 \<Longrightarrow> agree g w (upd_registry r h w1)"
  "agree g w w1 \<Longrightarrow> agree g w (upd_prop pr h' w1)"
  "agree g w w1 \<Longrightarrow> agree g w (update_table_set i ts w1)"
  "agree g w w1 \<Longrightarrow> agree g w (add_non_primary_mapper r q' w1)"
  "agree g w w1 \<Longrightarrow> agree g w (add_manager r c w1)"
  "agree g w w1 \<Longrightarrow> agree g w (snd (register_class c q' w1))"
  "agree g w w1 \<Longrightarrow> agree g w (w1\<lparr>properties := ps\<rparr>)"
  "agree g w w1 \<Longrightarrow> agree g w (w1\<lparr>table_sets := tss\<rparr>)"
  "agree g w w1 \<Longrightarrow> agree g w (w1\<lparr>selectables := ss\<rparr>)"
  "agree g w w1 \<Longrightarrow> agree g w (w1\<lparr>already_compiling := b\<rparr>)"
  by (simp_all add: agree_def)


lemma agree_but_refl [simp]: "agree_but self g w w"
  by (simp add: agree_but_def)

lemma agree_but_trans: "agree_but self g w w1 \<Longrightarrow> agree_but self g w1 w2 \<Longrightarrow> agree_but self g w w2"
  by (simp add: agree_but_def)

lemma agree_imp_agree_but: "agree g w w' \<Longrightarrow> agree_but self g w w'"
  by (simp add: agree_def agree_but_def)

lemma agree_but_upd:
  "(m \<noteq> self \<Longrightarrow> (\<And>x. g (f x) = g x)) \<Longrightarrow> agree_but self g w w1
     \<Longrightarrow> agree_but self g w (upd_mapper m f w1)"
  by (auto simp: agree_but_def the_mapper_upd)

lemma agree_but_other:
  "agree_but self g w w1 \<Longrightarrow> agree_but self g w (warn msg args w1)"
  "agree_but self g w w1 \<Longrightarrow> agree_but self g w (emit ev w1)"
  "agree_but self g w w1 \<Longrightarrow> agree_but self g w (set_item d k v w1)"
  "agree_but self g w w1 \<Longrightarrow> agree_but self g w (upd_registry r h w1)"
  "agree_but self g w w1 \<Longrightarrow> agree_but self g w (upd_prop pr h' w1)"
  "agree_but self g w w1 \<Longrightarrow> agree_but self g w (update_table_set i ts w1)"
  "agree_but self g w w1 \<Longrightarrow> agree_but self g w (add_non_primary_mapper r q' w1)"
  "agree_but self g w w1 \<Longrightarrow> agree_but self g w (add_manager r c w1)"
  "agree_but self g w w1 \<Longrightarrow> agree_but self g w (snd (register_class c q' w1))"
  "agree_but self g w w1 \<Longrightarrow> agree_but self g w (w1\<lparr>properties := ps\<rparr>)"
  "agree_but self g w w1 \<Longrightarrow> agree_but self g w (w1\<lparr>table_sets := tss\<rparr>)"
  "agree_but self g w w1 \<Longrightarrow> agree_but self g w (w1\<lparr>selectables := ss\<rparr>)"
  "agree_but self g w w1 \<Longrightarrow> agree_but self g w (w1\<lparr>already_compiling := b\<rparr>)"
  by (simp_all add: agree_but_def)

lemma agree_mark_row_aliasing:
  "(\<And>x. g (x\<lparr>requires_row_aliasing := True\<rparr>) = g x) \<Longrightarrow> agree g w w1
     \<Longrightarrow> agree g w (mark_row_aliasing ms w1)"
  by (induction ms arbitrary: w1) (auto intro!: agree_upd)

lemma agree_but_mark_row_aliasing:
  "(\<And>x. g (x\<lparr>requires_row_aliasing := True\<rparr>) = g x) \<Longrightarrow> agree_but self g w w1
     \<Longrightarrow> agree_but self g w (mark_row_aliasing ms w1)"
  by (induction ms arbitrary: w1) (auto intro!: agree_but_upd)

lemmas agree_intros = agree_upd agree_other agree_mark_row_aliasing
  agree_but_upd agree_but_other agree_but_mark_row_aliasing

lemma final_store_and_then:
  "final_store (and_then out f) = Some w' \<Longrightarrow>
     (\<exists>w1. out = Returns w1 \<and> final_store (f w1) = Some w') \<or> (\<exists>e. out = Raises e w')"
  by (cases out) auto

lemma and_then_Returns:
  "and_then out f = Returns w' \<longleftrightarrow> (\<exists>w1. out = Returns w1 \<and> f w1 = Returns w')"
  by (cases out) auto

lemma run_steps_Returns_Cons:
  "run_steps (f # fs) w = Returns w' \<longleftrightarrow> (\<exists>w1. f w = Returns w1 \<and> run_steps fs w1 = Returns w')"
  by (simp add: and_then_Returns)

text \<open>A reflexive and transitive relation that every step keeps is kept by the sequence.\<close>

lemma run_steps_rel:
  assumes refl: "\<And>v. R v v"
    and trans: "\<And>a b c. R a b \<Longrightarrow> R b c \<Longrightarrow> R a c"
  shows "(\<And>f v v'. f \<in> set fs \<Longrightarrow> final_store (f v) = Some v' \<Longrightarrow> R v v')
     \<Longrightarrow> final_store (run_steps fs w) = Some w' \<Longrightarrow> R w w'"
proof (induction fs arbitrary: w)
  case Nil
  then show ?case by (simp add: refl)
next
  case (Cons f fs)
  have rest: "R v v'" if "f' \<in> set fs" "final_store (f' v) = Some v'" for f' v v'
    using that Cons.prems(1) [of f' v v'] by simp
  from Cons.prems(2) consider
    (ret) w1 where "f w = Returns w1" "final_store (run_steps fs w1) = Some w'"
    | (exc) e where "f w = Raises e w'"
    by (auto dest: final_store_and_then)
  then show ?case
  proof cases
    case ret
    have "R w w1" using Cons.prems(1) [of f w w1] ret by simp
    moreover have "R w1 w'" using Cons.IH [OF rest ret(2)] by simp
    ultimately show ?thesis by (rule trans)
  next
    case exc
    then show ?thesis using Cons.prems(1) [of f w w'] by simp
  qed
qed

lemma agree_same_mappers: "mappers w' = mappers w \<Longrightarrow> agree g w w'"
  by (simp add: agree_def the_mapper_def)

lemma mappers_other [simp]:
  "mappers (warn msg args w) = mappers w"
  "mappers (emit ev w) = mappers w"
  "mappers (set_item d k v w) = mappers w"
  "mappers (upd_registry r g w) = mappers w"
  "mappers (upd_prop pr h w) = mappers w"
  "mappers (update_table_set i ts w) = mappers w"
  "mappers (add_non_primary_mapper r q' w) = mappers w"
  "mappers (add_manager r c w) = mappers w"
  "mappers (snd (register_class c q' w)) = mappers w"
  by (simp_all add: warn_def emit_def set_item_def upd_registry_def upd_prop_def
      update_table_set_def add_non_primary_mapper_def add_manager_def register_class_def
      Let_def split: option.splits)

lemma polymorphic_maps_other [simp]:
  "polymorphic_maps (warn msg args w) = polymorphic_maps w"
  "polymorphic_maps (emit ev w) = polymorphic_maps w"
  "polymorphic_maps (upd_registry r g w) = polymorphic_maps w"
  "polymorphic_maps (upd_prop pr h w) = polymorphic_maps w"
  "polymorphic_maps (update_table_set i ts w) = polymorphic_maps w"
  "polymorphic_maps (add_non_primary_mapper r q' w) = polymorphic_maps w"
  "polymorphic_maps (add_manager r c w) = polymorphic_maps w"
  "polymorphic_maps (snd (register_class c q' w)) = polymorphic_maps w"
  by (simp_all add: warn_def emit_def upd_registry_def upd_prop_def
      update_table_set_def add_non_primary_mapper_def add_manager_def register_class_def
      Let_def split: option.splits)

lemma selectables_other [simp]:
  "selectables (warn msg args w) = selectables w"
  "selectables (emit ev w) = selectables w"
  "selectables (set_item d k v w) = selectables w"
  "selectables (upd_registry r g w) = selectables w"
  "selectables (upd_prop pr h w) = selectables w"
  "selectables (update_table_set i ts w) = selectables w"
  "selectables (add_non_primary_mapper r q' w) = selectables w"
  "selectables (add_manager r c w) = selectables w"
  "selectables (snd (register_class c q' w)) = selectables w"
  by (simp_all add: warn_def emit_def set_item_def upd_registry_def upd_prop_def
      update_table_set_def add_non_primary_mapper_def add_manager_def register_class_def
      Let_def split: option.splits)

lemma warnings_other [simp]:
  "warnings (warn msg args w) = warnings w @ [Warning msg args]"
  "warnings (emit ev w) = warnings w"
  "warnings (set_item d k v w) = warnings w"
  "warnings (upd_registry r g w) = warnings w"
  "warnings (upd_prop pr h w) = warnings w"
  "warnings (update_table_set i ts w) = warnings w"
  "warnings (add_non_primary_mapper r q' w) = warnings w"
  "warnings (add_manager r c w) = warnings w"
  "warnings (snd (register_class c q' w)) = warnings w"
  by (simp_all add: warn_def emit_def set_item_def upd_registry_def upd_prop_def
      update_table_set_def add_non_primary_mapper_def add_manager_def register_class_def
      Let_def split: option.splits)

lemma mark_row_aliasing_components [simp]:
  "length (mappers (mark_row_aliasing ms w)) = length (mappers w)"
  "selectables (mark_row_aliasing ms w) = selectables w"
  "polymorphic_maps (mark_row_aliasing ms w) = polymorphic_maps w"
  "warnings (mark_row_aliasing ms w) = warnings w"
  by (induction ms arbitrary: w) simp_all

lemma objects_kept_refl [simp]: "objects_kept w w"
  by (simp add: objects_kept_def)

lemma objects_kept_trans: "objects_kept a b \<Longrightarrow> objects_kept b c \<Longrightarrow> objects_kept a c"
  by (simp add: objects_kept_def)

lemma warnings_grow_refl [simp]: "warnings_grow w w"
  by (simp add: warnings_grow_def)

lemma warnings_grow_trans: "warnings_grow a b \<Longrightarrow> warnings_grow b c \<Longrightarrow> warnings_grow a c"
  by (auto simp: warnings_grow_def)

lemma components_other [simp]:
  "selectables (w\<lparr>properties := ps\<rparr>) = selectables w"
  "polymorphic_maps (set_item d k v w) = (polymorphic_maps w)[d := AList.update k v (polymorphic_maps w ! d)]"
  by (simp_all add: set_item_def)

lemma check_inheritance_same:
  "final_store (check_inheritance E self p w) = Some w' \<Longrightarrow> w' = w"
  by (auto simp: check_inheritance_def Let_def split: if_splits)

lemma configure_polymorphic_load_same:
  "final_store (configure_polymorphic_load E self p w) = Some w' \<Longrightarrow> w' = w"
  by (auto simp: configure_polymorphic_load_def Let_def split: if_splits option.splits)

lemma expire_memoizations_same:
  "final_store (expire_memoizations self w) = Some w' \<Longrightarrow> w' = w"
  by (auto simp: expire_memoizations_def split: option.splits)

lemma require_persist_selectable_same:
  "final_store (require_persist_selectable self w) = Some w' \<Longrightarrow> w' = w"
  by (auto simp: require_persist_selectable_def split: if_splits)

section \<open>Frames of the construction steps\<close>

named_theorems keeps_rules

lemma keepsD: "keeps R f \<Longrightarrow> final_store (f v) = Some v' \<Longrightarrow> R v v'"
  by (simp add: keeps_def)

lemma keeps_run_steps:
  assumes "\<And>v. R v v" and "\<And>a b c. R a b \<Longrightarrow> R b c \<Longrightarrow> R a c"
    and "list_all (keeps R) fs"
  shows "keeps R (run_steps fs)"
  unfolding keeps_def
proof (intro allI impI)
  fix v v'
  assume fin: "final_store (run_steps fs v) = Some v'"
  have step: "R a b" if "f \<in> set fs" "final_store (f a) = Some b" for f a b
    using assms(3) that by (auto simp: list_all_iff keeps_def)
  show "R v v'"
    by (rule run_steps_rel [where R = R, OF assms(1) assms(2) step fin])
qed

lemma keeps_run_steps_agree [keeps_rules]:
  "list_all (keeps (agree g)) fs \<Longrightarrow> keeps (agree g) (run_steps fs)"
  by (rule keeps_run_steps) (auto intro: agree_trans)

lemma keeps_run_steps_agree_but [keeps_rules]:
  "list_all (keeps (agree_but self g)) fs \<Longrightarrow> keeps (agree_but self g) (run_steps fs)"
  by (rule keeps_run_steps) (auto intro: agree_but_trans)

lemma keeps_run_steps_objects [keeps_rules]:
  "list_all (keeps objects_kept) fs \<Longrightarrow> keeps objects_kept (run_steps fs)"
  by (rule keeps_run_steps) (auto intro: objects_kept_trans)

lemma keeps_run_steps_warnings [keeps_rules]:
  "list_all (keeps warnings_grow) fs \<Longrightarrow> keeps warnings_grow (run_steps fs)"
  by (rule keeps_run_steps) (auto intro: warnings_grow_trans)

lemma keeps_same:
  assumes "\<And>v. R v v" and "\<And>v v'. final_store (f v) = Some v' \<Longrightarrow> v' = v"
  shows "keeps R f"
  unfolding keeps_def
proof (intro allI impI)
  fix v v'
  assume "final_store (f v) = Some v'"
  then have "v' = v" by (rule assms(2))
  then show "R v v'" by (simp add: assms(1))
qed

lemma keeps_agree_but [keeps_rules]: "keeps (agree g) f \<Longrightarrow> keeps (agree_but self g) f"
  by (auto simp: keeps_def intro: agree_imp_agree_but)


lemma same_keeps [keeps_rules]:
  assumes "\<And>v. R v v"
  shows "keeps R (check_inheritance E self p)"
    "keeps R (configure_polymorphic_load E self p)"
    "keeps R (expire_memoizations self)"
    "keeps R (require_persist_selectable self)"
  by (rule keeps_same [OF assms]; erule check_inheritance_same configure_polymorphic_load_same
      expire_memoizations_same require_persist_selectable_same)+

lemma register_polymorphic_identity_keeps [keeps_rules]:
  "keeps (agree g) (register_polymorphic_identity self)"
  "keeps warnings_grow (register_polymorphic_identity self)"
  unfolding keeps_def register_polymorphic_identity_def
  by (auto simp: Let_def warnings_grow_def agree_def split: option.splits)

lemma infer_inherit_condition_agree:
  assumes "final_store (infer_inherit_condition E self p lt w) = Some w'"
  shows "agree args_of w w'" "agree primary_key w w'" "agree identity_class w w'" "agree_but self others_of w w'" "agree sel_of w w'"
  using assms unfolding infer_inherit_condition_def
  by (auto simp: args_of_def shape_of_def others_of_def sel_of_def Let_def 
      split: option.splits sum.splits if_splits intro!: agree_intros)

lemma join_to_parent_agree:
  assumes "final_store (join_to_parent E self p lt w) = Some w'"
  shows "agree args_of w w'" "agree primary_key w w'" "agree identity_class w w'" "agree_but self others_of w w'" "agree inherits w w'"
  using assms unfolding join_to_parent_def sql_join_def
  by (auto simp: args_of_def shape_of_def others_of_def sel_of_def Let_def 
      split: option.splits sum.splits if_splits intro!: agree_intros)

lemma set_identity_class_agree:
  assumes "final_store (set_identity_class self p w) = Some w'"
  shows "agree args_of w w'" "agree primary_key w w'" "agree shape_of w w'" "agree sel_of w w'" "agree_but self others_of w w'"
  using assms unfolding set_identity_class_def
  by (auto simp: args_of_def shape_of_def others_of_def sel_of_def Let_def 
      split: option.splits sum.splits if_splits intro!: agree_intros)

lemma inherit_version_id_agree:
  assumes "final_store (inherit_version_id self p w) = Some w'"
  shows "agree args_of w w'" "agree primary_key w w'" "agree identity_class w w'" "agree shape_of w w'" "agree sel_of w w'" "agree others_of w w'"
  using assms unfolding inherit_version_id_def
  by (auto simp: args_of_def shape_of_def others_of_def sel_of_def Let_def 
      split: option.splits sum.splits if_splits intro!: agree_intros)

lemma propagate_from_parent_agree:
  assumes "final_store (propagate_from_parent self p w) = Some w'"
  shows "agree args_of w w'" "agree primary_key w w'" "agree identity_class w w'" "agree sel_of w w'" "agree_but self others_of w w'"
  using assms unfolding propagate_from_parent_def
  by (auto simp: args_of_def shape_of_def others_of_def sel_of_def Let_def 
      split: option.splits sum.splits if_splits intro!: agree_intros)

lemma configure_base_agree:
  assumes "final_store (configure_base self w) = Some w'"
  shows "agree args_of w w'" "agree primary_key w w'" "agree_but self others_of w w'"
  using assms unfolding configure_base_def
  by (auto simp: args_of_def shape_of_def others_of_def sel_of_def Let_def 
      split: option.splits sum.splits if_splits intro!: agree_intros)

lemma configure_class_instrumentation_agree:
  assumes "final_store (configure_class_instrumentation E self w) = Some w'"
  shows "agree args_of w w'" "agree primary_key w w'" "agree shape_of w w'" "agree_but self others_of w w'"
  using assms unfolding configure_class_instrumentation_def
  by (auto simp: args_of_def shape_of_def others_of_def sel_of_def Let_def split_def
      split: option.splits sum.splits if_splits intro!: agree_intros)

lemma configure_properties_agree:
  assumes "final_store (configure_properties E self w) = Some w'"
  shows "agree args_of w w'" "agree primary_key w w'" "agree identity_class w w'" "agree shape_of w w'" "agree others_of w w'"
  using assms unfolding configure_properties_def
  by (auto simp: args_of_def shape_of_def others_of_def sel_of_def Let_def 
      split: option.splits sum.splits if_splits intro!: agree_intros)

lemma configure_polymorphic_setter_agree:
  assumes "final_store (configure_polymorphic_setter E self w) = Some w'"
  shows "agree args_of w w'" "agree primary_key w w'" "agree identity_class w w'" "agree shape_of w w'" "agree_but self others_of w w'"
  using assms unfolding configure_polymorphic_setter_def
  by (auto simp: args_of_def shape_of_def others_of_def sel_of_def Let_def 
      split: option.splits sum.splits if_splits intro!: agree_intros)

lemma collect_pks_agree:
  assumes "final_store (collect_pks E self w) = Some w'"
  shows "agree args_of w w'" "agree primary_key w w'" "agree identity_class w w'" "agree shape_of w w'" "agree others_of w w'"
  using assms unfolding collect_pks_def
  by (auto simp: args_of_def shape_of_def others_of_def sel_of_def Let_def 
      split: option.splits sum.splits if_splits intro!: agree_intros)

lemma check_pks_agree:
  assumes "final_store (check_pks E self w) = Some w'"
  shows "agree args_of w w'" "agree primary_key w w'" "agree identity_class w w'" "agree shape_of w w'" "agree others_of w w'"
  using assms unfolding check_pks_def
  by (auto simp: args_of_def shape_of_def others_of_def sel_of_def Let_def split_def
      split: option.splits sum.splits if_splits intro!: agree_intros)

lemma derive_primary_key_agree:
  assumes "final_store (derive_primary_key E self w) = Some w'"
  shows "agree args_of w w'" "agree identity_class w w'" "agree shape_of w w'" "agree others_of w w'" "agree_but self primary_key w w'"
  using assms unfolding derive_primary_key_def
  by (auto simp: args_of_def shape_of_def others_of_def sel_of_def Let_def 
      split: option.splits sum.splits if_splits intro!: agree_intros)

lemma mark_readonly_props_agree:
  assumes "final_store (mark_readonly_props E self w) = Some w'"
  shows "agree args_of w w'" "agree primary_key w w'" "agree identity_class w w'" "agree shape_of w w'" "agree others_of w w'"
  using assms unfolding mark_readonly_props_def
  by (auto simp: args_of_def shape_of_def others_of_def sel_of_def Let_def 
      split: option.splits sum.splits if_splits intro!: agree_intros)

lemma flag_new_mapper_agree:
  assumes "final_store (flag_new_mapper self w) = Some w'"
  shows "agree args_of w w'" "agree primary_key w w'" "agree identity_class w w'" "agree shape_of w w'" "agree others_of w w'"
  using assms unfolding flag_new_mapper_def
  by (auto simp: args_of_def shape_of_def others_of_def sel_of_def Let_def 
      split: option.splits sum.splits if_splits intro!: agree_intros)


lemma infer_inherit_condition_objects:
  assumes "final_store (infer_inherit_condition E self p lt w) = Some w'"
  shows "objects_kept w w'" "warnings_grow w w'"
  using assms unfolding infer_inherit_condition_def
  by (auto simp: objects_kept_def warnings_grow_def Let_def 
      split: option.splits sum.splits if_splits)

lemma join_to_parent_objects:
  assumes "final_store (join_to_parent E self p lt w) = Some w'"
  shows "warnings_grow w w'"
  using assms unfolding join_to_parent_def sql_join_def
  by (auto simp: objects_kept_def warnings_grow_def Let_def 
      split: option.splits sum.splits if_splits)

lemma set_identity_class_objects:
  assumes "final_store (set_identity_class self p w) = Some w'"
  shows "objects_kept w w'" "warnings_grow w w'"
  using assms unfolding set_identity_class_def
  by (auto simp: objects_kept_def warnings_grow_def Let_def 
      split: option.splits sum.splits if_splits)

lemma inherit_version_id_objects:
  assumes "final_store (inherit_version_id self p w) = Some w'"
  shows "objects_kept w w'" "warnings_grow w w'"
  using assms unfolding inherit_version_id_def
  by (auto simp: objects_kept_def warnings_grow_def Let_def 
      split: option.splits sum.splits if_splits)

lemma propagate_from_parent_objects:
  assumes "final_store (propagate_from_parent self p w) = Some w'"
  shows "objects_kept w w'" "warnings_grow w w'"
  using assms unfolding propagate_from_parent_def
  by (auto simp: objects_kept_def warnings_grow_def Let_def 
      split: option.splits sum.splits if_splits)

lemma register_polymorphic_identity_objects:
  assumes "final_store (register_polymorphic_identity self w) = Some w'"
  shows "warnings_grow w w'"
  using assms unfolding register_polymorphic_identity_def
  by (auto simp: objects_kept_def warnings_grow_def Let_def 
      split: option.splits sum.splits if_splits)

lemma configure_base_objects:
  assumes "final_store (configure_base self w) = Some w'"
  shows "warnings_grow w w'"
  using assms unfolding configure_base_def
  by (auto simp: objects_kept_def warnings_grow_def Let_def 
      split: option.splits sum.splits if_splits)

lemma configure_class_instrumentation_objects:
  assumes "final_store (configure_class_instrumentation E self w) = Some w'"
  shows "objects_kept w w'" "warnings_grow w w'"
  using assms unfolding configure_class_instrumentation_def
  by (auto simp: objects_kept_def warnings_grow_def Let_def split_def
      split: option.splits sum.splits if_splits)

lemma configure_properties_objects:
  assumes "final_store (configure_properties E self w) = Some w'"
  shows "objects_kept w w'" "warnings_grow w w'"
  using assms unfolding configure_properties_def
  by (auto simp: objects_kept_def warnings_grow_def Let_def 
      split: option.splits sum.splits if_splits)

lemma configure_polymorphic_setter_objects:
  assumes "final_store (configure_polymorphic_setter E self w) = Some w'"
  shows "objects_kept w w'" "warnings_grow w w'"
  using assms unfolding configure_polymorphic_setter_def
  by (auto simp: objects_kept_def warnings_grow_def Let_def 
      split: option.splits sum.splits if_splits)

lemma collect_pks_objects:
  assumes "final_store (collect_pks E self w) = Some w'"
  shows "objects_kept w w'" "warnings_grow w w'"
  using assms unfolding collect_pks_def
  by (auto simp: objects_kept_def warnings_grow_def Let_def 
      split: option.splits sum.splits if_splits)

lemma check_pks_objects:
  assumes "final_store (check_pks E self w) = Some w'"
  shows "objects_kept w w'" "warnings_grow w w'"
  using assms unfolding check_pks_def
  by (auto simp: objects_kept_def warnings_grow_def Let_def split_def
      split: option.splits sum.splits if_splits)

lemma derive_primary_key_objects:
  assumes "final_store (derive_primary_key E self w) = Some w'"
  shows "objects_kept w w'" "warnings_grow w w'"
  using assms unfolding derive_primary_key_def
  by (auto simp: objects_kept_def warnings_grow_def Let_def 
      split: option.splits sum.splits if_splits)

lemma mark_readonly_props_objects:
  assumes "final_store (mark_readonly_props E self w) = Some w'"
  shows "objects_kept w w'" "warnings_grow w w'"
  using assms unfolding mark_readonly_props_def
  by (auto simp: objects_kept_def warnings_grow_def Let_def 
      split: option.splits sum.splits if_splits)

lemma flag_new_mapper_objects:
  assumes "final_store (flag_new_mapper self w) = Some w'"
  shows "objects_kept w w'" "warnings_grow w w'"
  using assms unfolding flag_new_mapper_def
  by (auto simp: objects_kept_def warnings_grow_def Let_def 
      split: option.splits sum.splits if_splits)


lemma infer_inherit_condition_keeps [keeps_rules]:
  shows "keeps (agree args_of) (infer_inherit_condition E self p lt)"
    "keeps (agree primary_key) (infer_inherit_condition E self p lt)"
    "keeps (agree identity_class) (infer_inherit_condition E self p lt)"
    "keeps (agree_but self others_of) (infer_inherit_condition E self p lt)"
    "keeps (agree sel_of) (infer_inherit_condition E self p lt)"
    "keeps (objects_kept) (infer_inherit_condition E self p lt)"
    "keeps (warnings_grow) (infer_inherit_condition E self p lt)"
  unfolding keeps_def by (blast intro: infer_inherit_condition_agree infer_inherit_condition_objects)+

lemma join_to_parent_keeps [keeps_rules]:
  shows "keeps (agree args_of) (join_to_parent E self p lt)"
    "keeps (agree primary_key) (join_to_parent E self p lt)"
    "keeps (agree identity_class) (join_to_parent E self p lt)"
    "keeps (agree_but self others_of) (join_to_parent E self p lt)"
    "keeps (agree inherits) (join_to_parent E self p lt)"
    "keeps (warnings_grow) (join_to_parent E self p lt)"
  unfolding keeps_def by (blast intro: join_to_parent_agree join_to_parent_objects)+

lemma set_identity_class_keeps [keeps_rules]:
  shows "keeps (agree args_of) (set_identity_class self p)"
    "keeps (agree primary_key) (set_identity_class self p)"
    "keeps (agree shape_of) (set_identity_class self p)"
    "keeps (agree sel_of) (set_identity_class self p)"
    "keeps (agree_but self others_of) (set_identity_class self p)"
    "keeps (objects_kept) (set_identity_class self p)"
    "keeps (warnings_grow) (set_identity_class self p)"
  unfolding keeps_def by (blast intro: set_identity_class_agree set_identity_class_objects)+

lemma inherit_version_id_keeps [keeps_rules]:
  shows "keeps (agree args_of) (inherit_version_id self p)"
    "keeps (agree primary_key) (inherit_version_id self p)"
    "keeps (agree identity_class) (inherit_version_id self p)"
    "keeps (agree shape_of) (inherit_version_id self p)"
    "keeps (agree sel_of) (inherit_version_id self p)"
    "keeps (agree others_of) (inherit_version_id self p)"
    "keeps (objects_kept) (inherit_version_id self p)"
    "keeps (warnings_grow) (inherit_version_id self p)"
  unfolding keeps_def by (blast intro: inherit_version_id_agree inherit_version_id_objects)+

lemma propagate_from_parent_keeps [keeps_rules]:
  shows "keeps (agree args_of) (propagate_from_parent self p)"
    "keeps (agree primary_key) (propagate_from_parent self p)"
    "keeps (agree identity_class) (propagate_from_parent self p)"
    "keeps (agree sel_of) (propagate_from_parent self p)"
    "keeps (agree_but self others_of) (propagate_from_parent self p)"
    "keeps (objects_kept) (propagate_from_parent self p)"
    "keeps (warnings_grow) (propagate_from_parent self p)"
  unfolding keeps_def by (blast intro: propagate_from_parent_agree propagate_from_parent_objects)+

lemma configure_base_keeps [keeps_rules]:
  shows "keeps (agree args_of) (configure_base self)"
    "keeps (agree primary_key) (configure_base self)"
    "keeps (agree_but self others_of) (configure_base self)"
    "keeps (warnings_grow) (configure_base self)"
  unfolding keeps_def by (blast intro: configure_base_agree configure_base_objects)+

lemma configure_class_instrumentation_keeps [keeps_rules]:
  shows "keeps (agree args_of) (configure_class_instrumentation E self)"
    "keeps (agree primary_key) (configure_class_instrumentation E self)"
    "keeps (agree shape_of) (configure_class_instrumentation E self)"
    "keeps (agree_but self others_of) (configure_class_instrumentation E self)"
    "keeps (objects_kept) (configure_class_instrumentation E self)"
    "keeps (warnings_grow) (configure_class_instrumentation E self)"
  unfolding keeps_def by (blast intro: configure_class_instrumentation_agree configure_class_instrumentation_objects)+

lemma configure_properties_keeps [keeps_rules]:
  shows "keeps (agree args_of) (configure_properties E self)"
    "keeps (agree primary_key) (configure_properties E self)"
    "keeps (agree identity_class) (configure_properties E self)"
    "keeps (agree shape_of) (configure_properties E self)"
    "keeps (agree others_of) (configure_properties E self)"
    "keeps (objects_kept) (configure_properties E self)"
    "keeps (warnings_grow) (configure_properties E self)"
  unfolding keeps_def by (blast intro: configure_properties_agree configure_properties_objects)+

lemma configure_polymorphic_setter_keeps [keeps_rules]:
  shows "keeps (agree args_of) (configure_polymorphic_setter E self)"
    "keeps (agree primary_key) (configure_polymorphic_setter E self)"
    "keeps (agree identity_class) (configure_polymorphic_setter E self)"
    "keeps (agree shape_of) (configure_polymorphic_setter E self)"
    "keeps (agree_but self others_of) (configure_polymorphic_setter E self)"
    "keeps (objects_kept) (configure_polymorphic_setter E self)"
    "keeps (warnings_grow) (configure_polymorphic_setter E self)"
  unfolding keeps_def by (blast intro: configure_polymorphic_setter_agree configure_polymorphic_setter_objects)+

lemma collect_pks_keeps [keeps_rules]:
  shows "keeps (agree args_of) (collect_pks E self)"
    "keeps (agree primary_key) (collect_pks E self)"
    "keeps (agree identity_class) (collect_pks E self)"
    "keeps (agree shape_of) (collect_pks E self)"
    "keeps (agree others_of) (collect_pks E self)"
    "keeps (objects_kept) (collect_pks E self)"
    "keeps (warnings_grow) (collect_pks E self)"
  unfolding keeps_def by (blast intro: collect_pks_agree collect_pks_objects)+

lemma check_pks_keeps [keeps_rules]:
  shows "keeps (agree args_of) (check_pks E self)"
    "keeps (agree primary_key) (check_pks E self)"
    "keeps (agree identity_class) (check_pks E self)"
    "keeps (agree shape_of) (check_pks E self)"
    "keeps (agree others_of) (check_pks E self)"
    "keeps (objects_kept) (check_pks E self)"
    "keeps (warnings_grow) (check_pks E self)"
  unfolding keeps_def by (blast intro: check_pks_agree check_pks_objects)+

lemma derive_primary_key_keeps [keeps_rules]:
  shows "keeps (agree args_of) (derive_primary_key E self)"
    "keeps (agree identity_class) (derive_primary_key E self)"
    "keeps (agree shape_of) (derive_primary_key E self)"
    "keeps (agree others_of) (derive_primary_key E self)"
    "keeps (agree_but self primary_key) (derive_primary_key E self)"
    "keeps (objects_kept) (derive_primary_key E self)"
    "keeps (warnings_grow) (derive_primary_key E self)"
  unfolding keeps_def by (blast intro: derive_primary_key_agree derive_primary_key_objects)+

lemma mark_readonly_props_keeps [keeps_rules]:
  shows "keeps (agree args_of) (mark_readonly_props E self)"
    "keeps (agree primary_key) (mark_readonly_props E self)"
    "keeps (agree identity_class) (mark_readonly_props E self)"
    "keeps (agree shape_of) (mark_readonly_props E self)"
    "keeps (agree others_of) (mark_readonly_props E self)"
    "keeps (objects_kept) (mark_readonly_props E self)"
    "keeps (warnings_grow) (mark_readonly_props E self)"
  unfolding keeps_def by (blast intro: mark_readonly_props_agree mark_readonly_props_objects)+

lemma flag_new_mapper_keeps [keeps_rules]:
  shows "keeps (agree args_of) (flag_new_mapper self)"
    "keeps (agree primary_key) (flag_new_mapper self)"
    "keeps (agree identity_class) (flag_new_mapper self)"
    "keeps (agree shape_of) (flag_new_mapper self)"
    "keeps (agree others_of) (flag_new_mapper self)"
    "keeps (objects_kept) (flag_new_mapper self)"
    "keeps (warnings_grow) (flag_new_mapper self)"
  unfolding keeps_def by (blast intro: flag_new_mapper_agree flag_new_mapper_objects)+

lemma agree_mono:
  assumes "agree g w w'" and "\<And>x y. g x = g y \<Longrightarrow> h x = h y"
  shows "agree h w w'"
  unfolding agree_def
proof
  fix q
  from assms(1) have "g (the_mapper w' q) = g (the_mapper w q)"
    by (simp add: agree_def)
  then show "h (the_mapper w' q) = h (the_mapper w q)"
    by (rule assms(2))
qed

lemma keeps_mono:
  assumes "keeps (agree g) f" and "\<And>x y. g x = g y \<Longrightarrow> h x = h y"
  shows "keeps (agree h) f"
  unfolding keeps_def
proof (intro allI impI)
  fix v v'
  assume "final_store (f v) = Some v'"
  with assms(1) have "agree g v v'" by (rule keepsD)
  then show "agree h v v'" using assms(2) by (rule agree_mono)
qed

lemma keeps_inherits [keeps_rules]:
  "keeps (agree sel_of) f \<Longrightarrow> keeps (agree inherits) f"
  by (erule keeps_mono) (simp add: sel_of_def)

lemma joined_steps_keeps [keeps_rules]:
  "keeps (agree args_of) (run_steps [infer_inherit_condition E self p lt, join_to_parent E self p lt])"
  "keeps (agree primary_key) (run_steps [infer_inherit_condition E self p lt, join_to_parent E self p lt])"
  "keeps (agree identity_class) (run_steps [infer_inherit_condition E self p lt, join_to_parent E self p lt])"
  "keeps (agree_but self others_of) (run_steps [infer_inherit_condition E self p lt, join_to_parent E self p lt])"
  "keeps (agree inherits) (run_steps [infer_inherit_condition E self p lt, join_to_parent E self p lt])"
  "keeps warnings_grow (run_steps [infer_inherit_condition E self p lt, join_to_parent E self p lt])"
  by (simp_all add: keeps_rules)

lemma configure_selectable_agree:
  assumes "final_store (configure_selectable E self p w) = Some w'"
  shows "agree args_of w w'" "agree primary_key w w'" "agree identity_class w w'"
    "agree_but self others_of w w'" "agree inherits w w'" "warnings_grow w w'"
  using assms unfolding configure_selectable_def
  by (auto simp: args_of_def others_of_def Let_def warnings_grow_def [of w "upd_mapper _ _ _"]
      warnings_grow_def [of w "mark_row_aliasing _ _"]
      split: option.splits if_splits intro!: agree_intros
      intro: joined_steps_keeps [THEN keepsD])

lemma configure_selectable_keeps [keeps_rules]:
  "keeps (agree args_of) (configure_selectable E self p)"
  "keeps (agree primary_key) (configure_selectable E self p)"
  "keeps (agree identity_class) (configure_selectable E self p)"
  "keeps (agree_but self others_of) (configure_selectable E self p)"
  "keeps (agree inherits) (configure_selectable E self p)"
  "keeps warnings_grow (configure_selectable E self p)"
  unfolding keeps_def by (blast intro: configure_selectable_agree)+

lemma configure_inheriting_keeps [keeps_rules]:
  "keeps (agree args_of) (configure_inheriting E self p)"
  "keeps (agree primary_key) (configure_inheriting E self p)"
  "keeps (agree_but self others_of) (configure_inheriting E self p)"
  "keeps (agree inherits) (configure_inheriting E self p)"
  "keeps warnings_grow (configure_inheriting E self p)"
  unfolding configure_inheriting_def by (simp_all add: keeps_rules)

lemma configure_pks_keeps [keeps_rules]:
  "keeps (agree args_of) (configure_pks E self)"
  "keeps (agree identity_class) (configure_pks E self)"
  "keeps (agree shape_of) (configure_pks E self)"
  "keeps (agree others_of) (configure_pks E self)"
  "keeps (agree_but self primary_key) (configure_pks E self)"
  "keeps objects_kept (configure_pks E self)"
  "keeps warnings_grow (configure_pks E self)"
  unfolding configure_pks_def by (simp_all add: keeps_rules)

section \<open>The shape of a construction\<close>

lemma allocate_mapper_facts:
  "length (mappers (allocate_mapper a w)) = Suc (length (mappers w))"
  "the_mapper (allocate_mapper a w) (length (mappers w)) = new_mapper a (dict_of a w)"
  "q < length (mappers w) \<Longrightarrow> the_mapper (allocate_mapper a w) q = the_mapper w q"
  "selectables (allocate_mapper a w) = selectables w"
  "warnings (allocate_mapper a w) = warnings w"
  by (auto simp: allocate_mapper_def the_mapper_def dict_of_def nth_append split: option.splits)

lemma prepared_facts:
  "length (mappers (prepared a w)) = Suc (length (mappers w))"
  "the_mapper (prepared a w) (length (mappers w)) = new_mapper a (dict_of a w)"
  "q < length (mappers w) \<Longrightarrow> the_mapper (prepared a w) q = the_mapper w q"
  "selectables (prepared a w) = selectables w"
  "warnings (prepared a w) = warnings w"
  by (auto simp: prepared_def the_mapper_upd allocate_mapper_facts new_mapper_def)

lemma linked_facts:
  "length (mappers (linked a p w)) = Suc (length (mappers w))"
  "the_mapper (linked a p w) (length (mappers w))
     = (new_mapper a (dict_of a w))\<lparr>inherits := Some p, inherits_class := None\<rparr>"
  "q < length (mappers w) \<Longrightarrow> the_mapper (linked a p w) q = the_mapper w q"
  "selectables (linked a p w) = selectables w"
  "warnings (linked a p w) = warnings w"
  by (auto simp: linked_def the_mapper_upd prepared_facts)

lemma upd_mapper_id: "f (the_mapper w m) = the_mapper w m \<Longrightarrow> upd_mapper m f w = w"
  by (simp add: upd_mapper_def the_mapper_def)

lemma linked_mapper:
  "arg_inherits a = Some (InheritsMapper p) \<Longrightarrow> linked a p w = prepared a w"
  unfolding linked_def
  by (rule upd_mapper_id) (simp add: prepared_facts new_mapper_def)

lemma configure_inheritance_parent:
  assumes "parent_of E a w = Some p"
  shows "configure_inheritance E (length (mappers w)) (allocate_mapper a w)
           = and_then (configure_inheriting E (length (mappers w)) p (linked a p w))
               (require_persist_selectable (length (mappers w)))"
proof (cases "arg_inherits a")
  case None
  with assms show ?thesis by (simp add: parent_of_def)
next
  case (Some i)
  show ?thesis
  proof (cases i)
    case (InheritsMapper p')
    with Some assms have p: "p' = p" by (simp add: parent_of_def)
    have "linked a p w = prepared a w"
      using Some InheritsMapper p by (simp add: linked_mapper)
    moreover have "inherits (new_mapper a (dict_of a w)) = Some p"
      using Some InheritsMapper p by (simp add: new_mapper_def)
    ultimately show ?thesis
      by (simp add: configure_inheritance_def Let_def prepared_def [symmetric] prepared_facts)
  next
    case (InheritsClass c)
    with Some assms have cm: "class_mapper E (prepared a w) c = Inr p"
      by (simp add: parent_of_def split: sum.splits)
    have "inherits (new_mapper a (dict_of a w)) = None"
      "inherits_class (new_mapper a (dict_of a w)) = Some c"
      using Some InheritsClass by (simp_all add: new_mapper_def)
    then show ?thesis
      using cm
      by (simp add: configure_inheritance_def Let_def prepared_def [symmetric] prepared_facts
          linked_def)
  qed
qed

lemma Mapper_init_Returns:
  assumes "Mapper_init E a w = Returns w'"
  obtains w1 w2 w3 w4 w5 w6 where
    "configure_inheritance E (length (mappers w)) (allocate_mapper a w) = Returns w1"
    "configure_class_instrumentation E (length (mappers w)) w1 = Returns w2"
    "configure_properties E (length (mappers w)) w2 = Returns w3"
    "configure_polymorphic_setter E (length (mappers w)) w3 = Returns w4"
    "configure_pks E (length (mappers w)) w4 = Returns w5"
    "flag_new_mapper (length (mappers w)) w5 = Returns w6"
    "expire_memoizations (length (mappers w)) w6 = Returns w'"
  using assms
  by (auto simp: Mapper_init_def Let_def and_then_Returns)

lemma count_kept_refl [simp]: "count_kept w w"
  by (simp add: count_kept_def)

lemma count_kept_trans: "count_kept a b \<Longrightarrow> count_kept b c \<Longrightarrow> count_kept a c"
  by (simp add: count_kept_def)

lemma keeps_run_steps_count [keeps_rules]:
  "list_all (keeps count_kept) fs \<Longrightarrow> keeps count_kept (run_steps fs)"
  by (rule keeps_run_steps) (auto intro: count_kept_trans)

lemma keeps_count [keeps_rules]: "keeps objects_kept f \<Longrightarrow> keeps count_kept f"
  by (simp add: keeps_def objects_kept_def count_kept_def)

lemma join_to_parent_count [keeps_rules]: "keeps count_kept (join_to_parent E self p lt)"
  unfolding keeps_def join_to_parent_def sql_join_def
  by (auto simp: count_kept_def Let_def split: option.splits)

lemma register_polymorphic_identity_count [keeps_rules]:
  "keeps count_kept (register_polymorphic_identity self)"
  unfolding keeps_def register_polymorphic_identity_def
  by (auto simp: count_kept_def Let_def split: option.splits)

lemma configure_base_count [keeps_rules]: "keeps count_kept (configure_base self)"
  unfolding keeps_def configure_base_def
  by (auto simp: count_kept_def Let_def the_mapper_def upd_mapper_def set_item_def
      split: option.splits)

lemma configure_selectable_count [keeps_rules]: "keeps count_kept (configure_selectable E self p)"
proof -
  have joined: "keeps count_kept
      (run_steps [infer_inherit_condition E self p lt, join_to_parent E self p lt])" for lt
    by (simp add: keeps_rules)
  show ?thesis
    unfolding keeps_def configure_selectable_def
    by (auto simp: count_kept_def Let_def simp del: run_steps.simps
        split: option.splits if_splits dest: joined [THEN keepsD])
qed

lemma configure_inheriting_count [keeps_rules]:
  "keeps count_kept (configure_inheriting E self p)"
  unfolding configure_inheriting_def by (simp add: keeps_rules)

lemma construction_tail_keeps:
  "keeps (agree args_of)
     (run_steps [configure_class_instrumentation E self, configure_properties E self,
                 configure_polymorphic_setter E self])"
  "keeps (agree shape_of)
     (run_steps [configure_class_instrumentation E self, configure_properties E self,
                 configure_polymorphic_setter E self])"
  "keeps (agree primary_key)
     (run_steps [configure_class_instrumentation E self, configure_properties E self,
                 configure_polymorphic_setter E self])"
  "keeps (agree_but self others_of)
     (run_steps [configure_class_instrumentation E self, configure_properties E self,
                 configure_polymorphic_setter E self])"
  "keeps objects_kept
     (run_steps [configure_class_instrumentation E self, configure_properties E self,
                 configure_polymorphic_setter E self])"
  "keeps warnings_grow
     (run_steps [configure_class_instrumentation E self, configure_properties E self,
                 configure_polymorphic_setter E self])"
  by (simp_all add: keeps_rules)

lemma derive_primary_key_inherits:
  assumes "derive_primary_key E self w = Returns w'"
    and "inherits (the_mapper w self) = Some p"
    and "\<not> concrete (the_mapper w self)"
    and "\<not> is_truthy (primary_key_argument (the_mapper w self))"
    and "self < length (mappers w)"
  shows "primary_key (the_mapper w' self) = primary_key (the_mapper w' p)"
  using assms by (auto simp: derive_primary_key_def Let_def the_mapper_upd)


lemma keeps_Returns: "keeps R f \<Longrightarrow> f v = Returns v' \<Longrightarrow> R v v'"
  by (simp add: keeps_def)

lemma Returns_same:
  "check_inheritance E self p w = Returns w' \<Longrightarrow> w' = w"
  "configure_polymorphic_load E self p w = Returns w' \<Longrightarrow> w' = w"
  "expire_memoizations self w = Returns w' \<Longrightarrow> w' = w"
  "require_persist_selectable self w = Returns w' \<Longrightarrow> w' = w"
  by (auto simp: check_inheritance_def configure_polymorphic_load_def expire_memoizations_def
      require_persist_selectable_def Let_def split: if_splits option.splits)

lemma new_mapper_args:
  "args_of (new_mapper a d)
     = (arg_class a, arg_non_primary a, arg_concrete a, arg_polymorphic_identity a,
        arg_primary_key a, False, None)"
  by (simp add: args_of_def new_mapper_def)

lemma args_of_linked:
  "args_of (the_mapper (linked a p w) (length (mappers w)))
     = (arg_class a, arg_non_primary a, arg_concrete a, arg_polymorphic_identity a,
        arg_primary_key a, False, None)"
  by (simp add: linked_facts args_of_def new_mapper_def)

text \<open>
  What the steps before primary-key derivation leave of a mapper with a parent: its
  arguments, its reference to the parent and the number of mappers.
\<close>

lemma construction_with_parent:
  assumes step1: "configure_inheritance E (length (mappers w)) (allocate_mapper a w) = Returns w1"
    and parent: "parent_of E a w = Some p"
  shows "configure_inheriting E (length (mappers w)) p (linked a p w) = Returns w1"
    and "inherits (the_mapper w1 (length (mappers w))) = Some p"
    and "args_of (the_mapper w1 (length (mappers w)))
          = (arg_class a, arg_non_primary a, arg_concrete a, arg_polymorphic_identity a,
             arg_primary_key a, False, None)"
    and "length (mappers w1) = Suc (length (mappers w))"
proof -
  from step1 configure_inheritance_parent [OF parent]
  obtain v where v: "configure_inheriting E (length (mappers w)) p (linked a p w) = Returns v"
    and req: "require_persist_selectable (length (mappers w)) v = Returns w1"
    by (auto simp: and_then_Returns)
  from req have "w1 = v"
    by (rule Returns_same)
  with v show ret: "configure_inheriting E (length (mappers w)) p (linked a p w) = Returns w1"
    by simp
  then have fin: "final_store (configure_inheriting E (length (mappers w)) p (linked a p w)) = Some w1"
    by simp
  have "agree inherits (linked a p w) w1"
    by (rule keepsD [OF configure_inheriting_keeps(4) fin])
  then show "inherits (the_mapper w1 (length (mappers w))) = Some p"
    by (simp add: agree_def linked_facts)
  have "agree args_of (linked a p w) w1"
    by (rule keepsD [OF configure_inheriting_keeps(1) fin])
  then show "args_of (the_mapper w1 (length (mappers w)))
          = (arg_class a, arg_non_primary a, arg_concrete a, arg_polymorphic_identity a,
             arg_primary_key a, False, None)"
    by (simp add: agree_def args_of_linked)
  have "count_kept (linked a p w) w1"
    by (rule keepsD [OF configure_inheriting_count fin])
  then show "length (mappers w1) = Suc (length (mappers w))"
    by (simp add: count_kept_def linked_facts)
qed

lemma configure_inheriting_Returns:
  assumes "configure_inheriting E self p w = Returns w'"
  obtains v1 v2 v3 v4 where
    "check_inheritance E self p w = Returns w"
    "configure_selectable E self p w = Returns v1"
    "set_identity_class self p v1 = Returns v2"
    "inherit_version_id self p v2 = Returns v3"
    "propagate_from_parent self p v3 = Returns v4"
    "register_polymorphic_identity self v4 = Returns w'"
    "configure_polymorphic_load E self p w' = Returns w'"
proof -
  from assms obtain v0 v1 v2 v3 v4 v5 where
    a: "check_inheritance E self p w = Returns v0"
    "configure_selectable E self p v0 = Returns v1"
    "set_identity_class self p v1 = Returns v2"
    "inherit_version_id self p v2 = Returns v3"
    "propagate_from_parent self p v3 = Returns v4"
    "register_polymorphic_identity self v4 = Returns v5"
    "configure_polymorphic_load E self p v5 = Returns w'"
    by (auto simp: configure_inheriting_def and_then_Returns)
  from a(1) have "v0 = w" by (rule Returns_same)
  moreover from a(7) have "w' = v5" by (rule Returns_same)
  ultimately show ?thesis using a that by simp
qed

lemma set_identity_class_Returns:
  assumes "set_identity_class self p w = Returns w'"
    and "polymorphic_identity (the_mapper w self) \<noteq> None"
    and "\<not> concrete (the_mapper w self)"
    and "self < length (mappers w)"
    and "p \<noteq> self"
  shows "identity_class (the_mapper w' self) = identity_class (the_mapper w' p)"
  using assms
  by (auto simp: set_identity_class_def Let_def the_mapper_upd split: option.splits)

lemma after_identity_keeps:
  "keeps (agree identity_class)
     (run_steps [inherit_version_id self p, propagate_from_parent self p,
                 register_polymorphic_identity self])"
  by (simp add: keeps_rules)

lemma configure_inheriting_identity:
  assumes ret: "configure_inheriting E self p w = Returns w'"
    and "p \<noteq> self" and "self < length (mappers w)"
    and "polymorphic_identity (the_mapper w self) \<noteq> None"
    and "\<not> concrete (the_mapper w self)"
  shows "identity_class (the_mapper w' self) = identity_class (the_mapper w' p)"
proof -
  from ret obtain v1 v2 v3 v4 where
    s: "configure_selectable E self p w = Returns v1"
    "set_identity_class self p v1 = Returns v2"
    "inherit_version_id self p v2 = Returns v3"
    "propagate_from_parent self p v3 = Returns v4"
    "register_polymorphic_identity self v4 = Returns w'"
    by (rule configure_inheriting_Returns)
  have "agree args_of w v1"
    by (rule keeps_Returns [OF configure_selectable_keeps(1) s(1)])
  then have "args_of (the_mapper v1 self) = args_of (the_mapper w self)"
    by (simp add: agree_def)
  with assms have pi: "polymorphic_identity (the_mapper v1 self) \<noteq> None"
    and nc: "\<not> concrete (the_mapper v1 self)"
    by (simp_all add: args_of_def)
  have "count_kept w v1"
    by (rule keeps_Returns [OF configure_selectable_count s(1)])
  with assms have len: "self < length (mappers v1)"
    by (simp add: count_kept_def)
  have eq2: "identity_class (the_mapper v2 self) = identity_class (the_mapper v2 p)"
    using s(2) pi nc len \<open>p \<noteq> self\<close> by (rule set_identity_class_Returns)
  from s(3,4,5) have "final_store (run_steps [inherit_version_id self p,
      propagate_from_parent self p, register_polymorphic_identity self] v2) = Some w'"
    by simp
  then have "agree identity_class v2 w'"
    by (rule keepsD [OF after_identity_keeps])
  with eq2 show ?thesis by (simp add: agree_def)
qed

lemma configure_class_instrumentation_primary:
  assumes "configure_class_instrumentation E self w = Returns w'"
    and "\<not> non_primary (the_mapper w self)"
  shows "agree identity_class w w'"
  using assms unfolding configure_class_instrumentation_def
  by (auto simp: Let_def split_def split: option.splits if_splits intro!: agree_intros)

lemma identity_tail_keeps:
  "keeps (agree identity_class)
     (run_steps [configure_properties E self, configure_polymorphic_setter E self,
                 configure_pks E self, flag_new_mapper self, expire_memoizations self])"
  by (simp add: keeps_rules)
section \<open>Identity keys: the round trip\<close>

lemma row_values_length: "row_values r cs = Inr vs \<Longrightarrow> length vs = length cs"
  by (induction cs arbitrary: vs) (auto split: option.splits sum.splits)

text \<open>
  Claim C6. For a mapper with a primary key and a row that has a value for each of its
  (adapted) primary-key columns, \<^verbatim>\<open>identity_key_from_row\<close> on the row and
  \<^verbatim>\<open>identity_key_from_primary_key\<close> on the primary-key values of that row give the same
  result for the same identity token: the same identity-key triple, when the mapper has
  its identity class.
\<close>

theorem identity_key_round_trip:
  assumes "primary_key (the_mapper w m) = Some pk"
    and "row_values r (adapt_pk_cols adapter pk) = Inr vs"
  shows "identity_key_from_row w m r identity_token adapter
           = identity_key_from_primary_key w m vs identity_token"
  using assms
  by (simp add: identity_key_from_row_def identity_key_from_primary_key_def
      split: option.splits)

theorem identity_key_round_trip_witness:
  "primary_key (the_mapper employee_store 0) = Some [0]
   \<and> row_values ex_row (adapt_pk_cols None [0]) = Inr [Some (IntV 7)]
   \<and> identity_key_from_row employee_store 0 ex_row None None = Inr (0, [Some (IntV 7)], None)
   \<and> identity_key_from_primary_key employee_store 0 [Some (IntV 7)] None
       = Inr (0, [Some (IntV 7)], None)"
proof -
  have pk: "primary_key (the_mapper employee_store 0) = Some [0]"
    by code_simp
  have vs: "row_values ex_row (adapt_pk_cols None [0]) = Inr [Some (IntV 7)]"
    by code_simp
  have key: "identity_key_from_primary_key employee_store 0 [Some (IntV 7)] None
               = Inr (0, [Some (IntV 7)], None)"
    by code_simp
  from identity_key_round_trip [OF pk vs, of None] key pk vs show ?thesis
    by simp
qed

text \<open>
  Claim C2. A mapper constructed with an inheritance parent, without the concrete flag
  and without an explicit primary key, has the primary key of its parent. (The local
  table plays no part: this holds with and without one.)
\<close>

theorem inherited_primary_key:
  assumes init: "Mapper_init E a w = Returns w'"
    and parent: "parent_of E a w = Some p"
    and nc: "\<not> arg_concrete a"
    and npk: "\<not> is_truthy (arg_primary_key a)"
  shows "primary_key (the_mapper w' (length (mappers w))) = primary_key (the_mapper w' p)"
proof -
  let ?self = "length (mappers w)"
  let ?mid = "run_steps [configure_class_instrumentation E ?self, configure_properties E ?self,
                 configure_polymorphic_setter E ?self]"
  from init obtain w1 w2 w3 w4 w5 w6 where
    s1: "configure_inheritance E ?self (allocate_mapper a w) = Returns w1"
    and s2: "configure_class_instrumentation E ?self w1 = Returns w2"
    and s3: "configure_properties E ?self w2 = Returns w3"
    and s4: "configure_polymorphic_setter E ?self w3 = Returns w4"
    and s5: "configure_pks E ?self w4 = Returns w5"
    and s6: "flag_new_mapper ?self w5 = Returns w6"
    and s7: "expire_memoizations ?self w6 = Returns w'"
    by (rule Mapper_init_Returns)
  note p1 = construction_with_parent [OF s1 parent]
  from s2 s3 s4 have mid: "final_store (?mid w1) = Some w4"
    by simp
  from s5 obtain c1 c2 c3 where
    k1: "collect_pks E ?self w4 = Returns c1"
    and k2: "check_pks E ?self c1 = Returns c2"
    and k3: "derive_primary_key E ?self c2 = Returns c3"
    and k4: "mark_readonly_props E ?self c3 = Returns w5"
    by (auto simp: configure_pks_def and_then_Returns)
  have a14: "agree args_of w1 w4" and h14: "agree shape_of w1 w4" and o14: "objects_kept w1 w4"
    by (rule keepsD [OF construction_tail_keeps(1) mid],
        rule keepsD [OF construction_tail_keeps(2) mid],
        rule keepsD [OF construction_tail_keeps(5) mid])
  have a4c: "agree args_of w4 c1" "agree shape_of w4 c1" "objects_kept w4 c1"
    by (rule keeps_Returns [OF collect_pks_keeps(1) k1],
        rule keeps_Returns [OF collect_pks_keeps(4) k1],
        rule keeps_Returns [OF collect_pks_keeps(6) k1])
  have acc: "agree args_of c1 c2" "agree shape_of c1 c2" "objects_kept c1 c2"
    by (rule keeps_Returns [OF check_pks_keeps(1) k2],
        rule keeps_Returns [OF check_pks_keeps(4) k2],
        rule keeps_Returns [OF check_pks_keeps(6) k2])
  have args: "args_of (the_mapper c2 ?self) = args_of (the_mapper w1 ?self)"
    using a14 a4c(1) acc(1) by (simp add: agree_def)
  have shape: "shape_of (the_mapper c2 ?self) = shape_of (the_mapper w1 ?self)"
    using h14 a4c(2) acc(2) by (simp add: agree_def)
  have len: "length (mappers c2) = Suc ?self"
    using o14 a4c(3) acc(3) p1(4) by (simp add: objects_kept_def)
  have inh: "inherits (the_mapper c2 ?self) = Some p"
    using shape p1(2) by (simp add: shape_of_def)
  have conc: "\<not> concrete (the_mapper c2 ?self)"
    and pka: "\<not> is_truthy (primary_key_argument (the_mapper c2 ?self))"
    using args p1(3) nc npk by (simp_all add: args_of_def)
  have eq3: "primary_key (the_mapper c3 ?self) = primary_key (the_mapper c3 p)"
    using k3 inh conc pka len by (intro derive_primary_key_inherits [where E = E and w = c2]) simp_all
  have "agree primary_key c3 w5"
    by (rule keeps_Returns [OF mark_readonly_props_keeps(2) k4])
  moreover have "agree primary_key w5 w6"
    by (rule keeps_Returns [OF flag_new_mapper_keeps(2) s6])
  moreover have "w' = w6"
    using s7 by (rule Returns_same)
  ultimately have "primary_key (the_mapper w' q) = primary_key (the_mapper c3 q)" for q
    by (simp add: agree_def)
  with eq3 show ?thesis by simp
qed

theorem inherited_primary_key_witness:
  "Mapper_init ex_env manager_joined_args employee_store = Returns manager_joined_store
   \<and> parent_of ex_env manager_joined_args employee_store = Some 0
   \<and> \<not> arg_concrete manager_joined_args
   \<and> \<not> is_truthy (arg_primary_key manager_joined_args)
   \<and> length (mappers employee_store) = 1
   \<and> primary_key (the_mapper manager_joined_store 1) = Some [0]
   \<and> primary_key (the_mapper manager_joined_store 0) = Some [0]"
proof -
  have init: "Mapper_init ex_env manager_joined_args employee_store = Returns manager_joined_store"
    by code_simp
  have parent: "parent_of ex_env manager_joined_args employee_store = Some 0"
    by code_simp
  have nc: "\<not> arg_concrete manager_joined_args"
    by code_simp
  have npk: "\<not> is_truthy (arg_primary_key manager_joined_args)"
    by code_simp
  have len: "length (mappers employee_store) = 1"
    by code_simp
  have pk: "primary_key (the_mapper manager_joined_store 0) = Some [0]"
    by code_simp
  from inherited_primary_key [OF init parent nc npk] len pk init parent nc npk
  show ?thesis by simp
qed

text \<open>
  Claim C10, as amended. A primary mapper (\<^verbatim>\<open>non_primary\<close> false) constructed with an
  inheritance parent, a polymorphic identity and without the concrete flag has the
  identity class of its parent, and \<^verbatim>\<open>identity_key_from_primary_key\<close> gives the same
  result on the mapper and on its parent for the same primary-key values and token.
\<close>

theorem identity_class_of_parent:
  assumes init: "Mapper_init E a w = Returns w'"
    and parent: "parent_of E a w = Some p"
    and older: "p < length (mappers w)"
    and pi: "arg_polymorphic_identity a \<noteq> None"
    and nc: "\<not> arg_concrete a"
    and prim: "\<not> arg_non_primary a"
  shows "identity_class (the_mapper w' (length (mappers w))) = identity_class (the_mapper w' p)
    \<and> identity_key_from_primary_key w' (length (mappers w)) pk_values identity_token
        = identity_key_from_primary_key w' p pk_values identity_token"
proof -
  let ?self = "length (mappers w)"
  from init obtain w1 w2 w3 w4 w5 w6 where
    s1: "configure_inheritance E ?self (allocate_mapper a w) = Returns w1"
    and s2: "configure_class_instrumentation E ?self w1 = Returns w2"
    and s3: "configure_properties E ?self w2 = Returns w3"
    and s4: "configure_polymorphic_setter E ?self w3 = Returns w4"
    and s5: "configure_pks E ?self w4 = Returns w5"
    and s6: "flag_new_mapper ?self w5 = Returns w6"
    and s7: "expire_memoizations ?self w6 = Returns w'"
    by (rule Mapper_init_Returns)
  note p1 = construction_with_parent [OF s1 parent]
  have "args_of (the_mapper (linked a p w) ?self)
          = (arg_class a, arg_non_primary a, arg_concrete a, arg_polymorphic_identity a,
             arg_primary_key a, False, None)"
    by (rule args_of_linked)
  then have "polymorphic_identity (the_mapper (linked a p w) ?self) \<noteq> None"
    and "\<not> concrete (the_mapper (linked a p w) ?self)"
    using pi nc by (simp_all add: args_of_def)
  moreover have "p \<noteq> ?self" using older by simp
  moreover have "?self < length (mappers (linked a p w))" by (simp add: linked_facts)
  ultimately have eq1: "identity_class (the_mapper w1 ?self) = identity_class (the_mapper w1 p)"
    using p1(1) by (intro configure_inheriting_identity [where E = E and w = "linked a p w"])
  have "\<not> non_primary (the_mapper w1 ?self)"
    using p1(3) prim by (simp add: args_of_def)
  with s2 have "agree identity_class w1 w2"
    by (rule configure_class_instrumentation_primary)
  moreover from s3 s4 s5 s6 s7 have "final_store (run_steps [configure_properties E ?self,
      configure_polymorphic_setter E ?self, configure_pks E ?self, flag_new_mapper ?self,
      expire_memoizations ?self] w2) = Some w'"
    by simp
  then have "agree identity_class w2 w'"
    by (rule keepsD [OF identity_tail_keeps])
  ultimately have "identity_class (the_mapper w' q) = identity_class (the_mapper w1 q)" for q
    by (simp add: agree_def)
  with eq1 have "identity_class (the_mapper w' ?self) = identity_class (the_mapper w' p)"
    by simp
  then show ?thesis
    by (simp add: identity_key_from_primary_key_def)
qed

theorem identity_class_of_parent_witness:
  "Mapper_init ex_env manager_joined_args employee_store = Returns manager_joined_store
   \<and> parent_of ex_env manager_joined_args employee_store = Some 0
   \<and> (0::nat) < length (mappers employee_store)
   \<and> arg_polymorphic_identity manager_joined_args \<noteq> None
   \<and> \<not> arg_concrete manager_joined_args
   \<and> \<not> arg_non_primary manager_joined_args
   \<and> length (mappers employee_store) = 1
   \<and> identity_class (the_mapper manager_joined_store 1) = Some 0
   \<and> identity_class (the_mapper manager_joined_store 0) = Some 0
   \<and> identity_key_from_primary_key manager_joined_store 1 [Some (IntV 7)] None
        = Inr (0, [Some (IntV 7)], None)
   \<and> identity_key_from_primary_key manager_joined_store 0 [Some (IntV 7)] None
        = Inr (0, [Some (IntV 7)], None)"
proof -
  have init: "Mapper_init ex_env manager_joined_args employee_store = Returns manager_joined_store"
    by code_simp
  have parent: "parent_of ex_env manager_joined_args employee_store = Some 0"
    by code_simp
  have older: "(0::nat) < length (mappers employee_store)"
    by code_simp
  have pi: "arg_polymorphic_identity manager_joined_args \<noteq> None"
    by code_simp
  have nc: "\<not> arg_concrete manager_joined_args"
    by code_simp
  have prim: "\<not> arg_non_primary manager_joined_args"
    by code_simp
  have len: "length (mappers employee_store) = 1"
    by code_simp
  have base: "identity_class (the_mapper manager_joined_store 0) = Some 0"
    by code_simp
  have key: "identity_key_from_primary_key manager_joined_store 0 [Some (IntV 7)] None
        = Inr (0, [Some (IntV 7)], None)"
    by code_simp
  from identity_class_of_parent [OF init parent older pi nc prim, of "[Some (IntV 7)]" None]
    init parent older pi nc prim len base key
  show ?thesis by simp
qed

text \<open>
  The claim as stated fails for a non-primary mapper: class binding gives it the identity
  class of the primary mapper of its own class (line 1217), whatever its parent's is.
  Here \<^verbatim>\<open>Manager\<close> has a primary mapper without a polymorphic identity (mapper 1, identity
  class \<^verbatim>\<open>Manager\<close>); the non-primary mapper of \<^verbatim>\<open>Manager\<close> (mapper 3) inherits from the
  non-primary mapper of \<^verbatim>\<open>Employee\<close> (mapper 2, identity class \<^verbatim>\<open>Employee\<close>) with a
  polymorphic identity and without the concrete flag.
\<close>

theorem identity_class_non_primary_counterexample:
  "raised (Mapper_init ex_env np_manager_args non_primary_store) = None
   \<and> final_store (Mapper_init ex_env np_manager_args non_primary_store)
       = Some (store_of (Mapper_init ex_env np_manager_args non_primary_store))
   \<and> length (mappers non_primary_store) = 3
   \<and> parent_of ex_env np_manager_args non_primary_store = Some 2
   \<and> arg_polymorphic_identity np_manager_args \<noteq> None
   \<and> \<not> arg_concrete np_manager_args
   \<and> identity_class (the_mapper (store_of (Mapper_init ex_env np_manager_args non_primary_store)) 3)
       = Some 1
   \<and> identity_class (the_mapper (store_of (Mapper_init ex_env np_manager_args non_primary_store)) 2)
       = Some 0
   \<and> identity_key_from_primary_key
         (store_of (Mapper_init ex_env np_manager_args non_primary_store)) 3 [Some (IntV 7)] None
       \<noteq> identity_key_from_primary_key
         (store_of (Mapper_init ex_env np_manager_args non_primary_store)) 2 [Some (IntV 7)] None"
  by code_simp

end
